theory Spec2Isabelle
  imports
    Main
    "HOL-Library.Word"
    "HOL-Library.Char_ord"
    "HOL-Library.List_Lexorder"
    "HOL-Library.AList"
begin

section \<open>Values shared by the whole package\<close>

text \<open>
  A Go \<^verbatim>\<open>string\<close> and a Go \<^verbatim>\<open>[]byte\<close> are both byte sequences; a HOL \<open>char\<close> is
  one byte, so both are \<open>string\<close> here and the conversion \<^verbatim>\<open>string(val)\<close> is the
  identity. A \<^verbatim>\<open>[]byte\<close> result that may be \<^verbatim>\<open>nil\<close> is a \<open>bytes option\<close>.
\<close>

type_synonym bytes = string

text \<open>
  \<^verbatim>\<open>time.Duration\<close> is an \<^verbatim>\<open>int64\<close> count of nanoseconds: a 64-bit word read with
  \<open>sint\<close>. A \<^verbatim>\<open>time.Time\<close> is an instant, counted in nanoseconds from the zero value
  \<^verbatim>\<open>time.Time{}\<close> (1 January of year 1), which \<^verbatim>\<open>IsZero\<close> recognises.
\<close>

type_synonym int64 = "64 word"
type_synonym Duration = "64 word"
type_synonym Time = int

definition zeroTime :: Time where
  "zeroTime = 0"

definition IsZero :: "Time \<Rightarrow> bool" where
  "IsZero t = (t = zeroTime)"

definition After :: "Time \<Rightarrow> Time \<Rightarrow> bool" where
  "After t u = (u < t)"

definition Add :: "Time \<Rightarrow> Duration \<Rightarrow> Time" where
  "Add t d = t + sint d"

text \<open>
  Go errors. \<^verbatim>\<open>errors.New(msg)\<close> is \<open>ErrorsNew msg\<close>; \<^verbatim>\<open>fmt.Errorf("...: %w", err)\<close>
  wraps an error under a message; the errors of \<^verbatim>\<open>encoding/json\<close> are \<open>JSONError\<close>.
\<close>

datatype error =
    ErrorsNew string
  | Errorf string error
  | JSONError string

definition ErrManagerNil :: error where
  "ErrManagerNil = ErrorsNew ''cache manager is nil''"

definition ErrInvalidType :: error where
  "ErrInvalidType = ErrorsNew ''invalid cache type''"

definition ErrInvalidTicket :: error where
  "ErrInvalidTicket = ErrorsNew ''invalid ticket''"

definition ErrTicketExpired :: error where
  "ErrTicketExpired = ErrorsNew ''ticket expired''"

definition ErrAdapterNil :: error where
  "ErrAdapterNil = ErrorsNew ''cache adapter is nil''"

subsection \<open>Strings\<close>

text \<open>\<^verbatim>\<open>strings.HasPrefix\<close>, \<^verbatim>\<open>strings.TrimSuffix\<close> and \<^verbatim>\<open>strings.Join\<close>.\<close>

definition HasPrefix :: "string \<Rightarrow> string \<Rightarrow> bool" where
  "HasPrefix s pre = (length pre \<le> length s \<and> take (length pre) s = pre)"

definition HasSuffix :: "string \<Rightarrow> string \<Rightarrow> bool" where
  "HasSuffix s suf = (length suf \<le> length s \<and> drop (length s - length suf) s = suf)"

definition TrimSuffix :: "string \<Rightarrow> string \<Rightarrow> string" where
  "TrimSuffix s suf = (if HasSuffix s suf then take (length s - length suf) s else s)"

fun Join :: "string list \<Rightarrow> string \<Rightarrow> string" where
  "Join [] sep = []"
| "Join [x] sep = x"
| "Join (x # y # ys) sep = x @ sep @ Join (y # ys) sep"

subsection \<open>Decimal numerals\<close>

text \<open>
  \<^verbatim>\<open>fmt.Sprintf("%d", n)\<close> and \<^verbatim>\<open>json.Marshal\<close> of an integer both print the shortest
  decimal numeral, with a leading \<^verbatim>\<open>-\<close> for a negative number.
\<close>

definition digit_char :: "nat \<Rightarrow> char" where
  "digit_char d = char_of (48 + d)"

function nat_dec :: "nat \<Rightarrow> string" where
  "nat_dec n = (if n < 10 then [digit_char n] else nat_dec (n div 10) @ [digit_char (n mod 10)])"
  by pat_completeness auto
termination
  by (relation "measure id") auto

declare nat_dec.simps [simp del]

definition int_dec :: "int \<Rightarrow> string" where
  "int_dec i = (if i < 0 then CHR ''-'' # nat_dec (nat (- i)) else nat_dec (nat i))"

subsection \<open>JSON for an \<^verbatim>\<open>int64\<close>\<close>

text \<open>
  \<^verbatim>\<open>json.Marshal\<close> returns either an error or a payload that is not \<^verbatim>\<open>nil\<close>: a sum,
  with \<open>Inl\<close> the error. For an \<^verbatim>\<open>int64\<close> it never fails and yields the decimal
  numeral.

  \<^verbatim>\<open>json.Unmarshal(data, &dest)\<close> with \<^verbatim>\<open>dest\<close> an \<^verbatim>\<open>int64\<close> takes the destination's
  current value and returns the value it holds afterwards with the error: white space
  around the value is skipped; the literal \<^verbatim>\<open>null\<close> leaves the destination as it is and
  is no error; a JSON integer literal (an optional \<^verbatim>\<open>-\<close>, then \<^verbatim>\<open>0\<close> or digits not
  starting with \<^verbatim>\<open>0\<close>) within the \<^verbatim>\<open>int64\<close> range is stored; anything else (text that
  is not JSON, a string, a fraction, an exponent, a number out of range) is an error and
  leaves the destination as it is.
\<close>

definition Marshal_int64 :: "int64 \<Rightarrow> error + bytes" where
  "Marshal_int64 n = Inr (int_dec (sint n))"

definition is_space :: "char \<Rightarrow> bool" where
  "is_space c = (c = CHR '' '' \<or> c = CHR 0x09 \<or> c = CHR 0x0A \<or> c = CHR 0x0D)"

definition json_trim :: "string \<Rightarrow> string" where
  "json_trim s = rev (dropWhile is_space (rev (dropWhile is_space s)))"

definition is_digit :: "char \<Rightarrow> bool" where
  "is_digit c = (48 \<le> (of_char c :: nat) \<and> (of_char c :: nat) \<le> 57)"

definition digits_val :: "string \<Rightarrow> nat" where
  "digits_val ds = fold (\<lambda>c acc. 10 * acc + ((of_char c :: nat) - 48)) ds 0"

definition nat_literal :: "string \<Rightarrow> nat option" where
  "nat_literal ds =
     (if ds \<noteq> [] \<and> list_all is_digit ds \<and> (ds = ''0'' \<or> hd ds \<noteq> CHR ''0'')
      then Some (digits_val ds) else None)"

definition int_literal :: "string \<Rightarrow> int option" where
  "int_literal s =
     (case s of
        [] \<Rightarrow> None
      | c # ds \<Rightarrow>
          if c = CHR ''-'' then map_option (\<lambda>n. - int n) (nat_literal ds)
          else map_option int (nat_literal s))"

definition Unmarshal_int64 :: "bytes \<Rightarrow> int64 \<Rightarrow> int64 \<times> error option" where
  "Unmarshal_int64 data dest =
     (let s = json_trim data in
      if s = ''null'' then (dest, None)
      else
        (case int_literal s of
           None \<Rightarrow> (dest, Some (JSONError ''cannot unmarshal into Go value of type int64''))
         | Some v \<Rightarrow>
             if - (2 ^ 63) \<le> v \<and> v < 2 ^ 63 then (word_of_int v, None)
             else (dest, Some (JSONError ''cannot unmarshal into Go value of type int64''))))"

subsection \<open>JSON for a dynamic value\<close>

text \<open>
  \<^verbatim>\<open>Set\<close> takes an \<^verbatim>\<open>interface{}\<close>. Three dynamic types such a value can have, and
  \<^verbatim>\<open>json.Marshal\<close> on them: an \<^verbatim>\<open>int64\<close> gives its numeral, a \<^verbatim>\<open>bool\<close> gives \<^verbatim>\<open>true\<close> or
  \<^verbatim>\<open>false\<close>, and a channel is refused with an \<^verbatim>\<open>UnsupportedTypeError\<close>.
\<close>

datatype go_value =
    VInt64 int64
  | VBool bool
  | VChan

fun Marshal_value :: "go_value \<Rightarrow> error + bytes" where
  "Marshal_value (VInt64 n) = Marshal_int64 n"
| "Marshal_value (VBool b) = Inr (if b then ''true'' else ''false'')"
| "Marshal_value VChan = Inl (JSONError ''json: unsupported type: chan int'')"

section \<open>The in-memory adapter (adapter.go)\<close>

text \<open>
  \<^verbatim>\<open>memoryEntry\<close> and \<^verbatim>\<open>MemoryCacheAdapter\<close>. The Go map \<^verbatim>\<open>cache\<close> is an association
  list with one pair per key; the order of the list is the order in which \<^verbatim>\<open>range\<close>
  visits the map, which Go leaves unspecified. The mutex is not a field: each function
  below is one critical section, and \<^verbatim>\<open>Get\<close>, which takes the lock twice, is two.
\<close>

record memoryEntry =
  data :: bytes
  expireAt :: Time

record MemoryCacheAdapter =
  cache :: "(string \<times> memoryEntry) list"
  defaultTTL :: Duration

definition NewMemoryCacheAdapter :: "Duration \<Rightarrow> MemoryCacheAdapter" where
  "NewMemoryCacheAdapter dttl = \<lparr>cache = [], defaultTTL = dttl\<rparr>"

text \<open>The invariant of a Go map: a key occurs once.\<close>

definition wf_cache :: "MemoryCacheAdapter \<Rightarrow> bool" where
  "wf_cache m = distinct (map fst (cache m))"

text \<open>
  \<^verbatim>\<open>Set\<close>. \<open>marshal\<close> is \<^verbatim>\<open>json.Marshal\<close> at the type of the stored value and \<open>now\<close>
  the reading of \<^verbatim>\<open>time.Now()\<close>. The result is the returned error and the adapter
  afterwards.
\<close>

definition mem_Set ::
  "('v \<Rightarrow> error + bytes) \<Rightarrow> MemoryCacheAdapter \<Rightarrow> Time \<Rightarrow> string \<Rightarrow> 'v \<Rightarrow>
     Duration \<Rightarrow> error option \<times> MemoryCacheAdapter" where
  "mem_Set marshal m now key val ttl =
     (case marshal val of
        Inl err \<Rightarrow> (Some (Errorf ''marshal value failed'' err), m)
      | Inr payload \<Rightarrow>
          (let ttl1 = (if ttl = 0 then defaultTTL m else ttl);
               expAt = (if 0 < sint ttl1 then Add now ttl1 else zeroTime)
           in (None,
               m\<lparr>cache := AList.update key \<lparr>data = payload, expireAt = expAt\<rparr> (cache m)\<rparr>)))"

text \<open>
  \<^verbatim>\<open>Get\<close> in its two critical sections: \<open>mem_Get_read\<close> is the lookup under the read
  lock, \<open>mem_Get_finish\<close> everything after \<^verbatim>\<open>RUnlock\<close>, run on the adapter as it is
  when the write lock is taken. A caller that runs alone runs them back to back:
  \<open>mem_Get\<close>. The result is the payload (\<open>None\<close> is Go's \<^verbatim>\<open>nil\<close>), the error, and the
  adapter afterwards. A stored payload comes from \<^verbatim>\<open>json.Marshal\<close> and is never \<^verbatim>\<open>nil\<close>.
\<close>

definition mem_Get_read :: "MemoryCacheAdapter \<Rightarrow> string \<Rightarrow> memoryEntry option" where
  "mem_Get_read m key = map_of (cache m) key"

definition mem_Get_finish ::
  "memoryEntry option \<Rightarrow> MemoryCacheAdapter \<Rightarrow> Time \<Rightarrow> string \<Rightarrow>
     (bytes option \<times> error option) \<times> MemoryCacheAdapter" where
  "mem_Get_finish found m now key =
     (case found of
        None \<Rightarrow> ((None, None), m)
      | Some entry \<Rightarrow>
          if \<not> IsZero (expireAt entry) \<and> After now (expireAt entry)
          then ((None, None), m\<lparr>cache := AList.delete key (cache m)\<rparr>)
          else ((Some (data entry), None), m))"

definition mem_Get ::
  "MemoryCacheAdapter \<Rightarrow> Time \<Rightarrow> string \<Rightarrow>
     (bytes option \<times> error option) \<times> MemoryCacheAdapter" where
  "mem_Get m now key = mem_Get_finish (mem_Get_read m key) m now key"

text \<open>\<^verbatim>\<open>Delete\<close> and \<^verbatim>\<open>Exists\<close>.\<close>

definition mem_Delete ::
  "MemoryCacheAdapter \<Rightarrow> string list \<Rightarrow> error option \<times> MemoryCacheAdapter" where
  "mem_Delete m keys = (None, m\<lparr>cache := fold AList.delete keys (cache m)\<rparr>)"

definition mem_Exists ::
  "MemoryCacheAdapter \<Rightarrow> Time \<Rightarrow> string \<Rightarrow> (bool \<times> error option) \<times> MemoryCacheAdapter" where
  "mem_Exists m now key =
     (case map_of (cache m) key of
        None \<Rightarrow> ((False, None), m)
      | Some entry \<Rightarrow>
          if \<not> IsZero (expireAt entry) \<and> After now (expireAt entry)
          then ((False, None), m)
          else ((True, None), m))"

text \<open>
  \<^verbatim>\<open>DeletePattern\<close>. The loop visits the keys the map holds when the loop starts, in
  the map's order, and carries the map and the counter. The counter is an \<^verbatim>\<open>int64\<close>.
\<close>

fun DeletePattern_loop ::
  "string \<Rightarrow> string list \<Rightarrow> (string \<times> memoryEntry) list \<times> int64 \<Rightarrow>
     (string \<times> memoryEntry) list \<times> int64" where
  "DeletePattern_loop pre [] (c, count) = (c, count)"
| "DeletePattern_loop pre (k # ks) (c, count) =
     (if HasPrefix k pre then DeletePattern_loop pre ks (AList.delete k c, count + 1)
      else DeletePattern_loop pre ks (c, count))"

definition mem_DeletePattern ::
  "MemoryCacheAdapter \<Rightarrow> string \<Rightarrow> (int64 \<times> error option) \<times> MemoryCacheAdapter" where
  "mem_DeletePattern m pattern =
     (if pattern = [] then ((0, None), m)
      else
        (let pre = TrimSuffix pattern ''*'';
             (c, count) = DeletePattern_loop pre (map fst (cache m)) (cache m, 0)
         in ((count, None), m\<lparr>cache := c\<rparr>)))"

text \<open>
  \<^verbatim>\<open>addDelta\<close>, \<^verbatim>\<open>Incr\<close> and \<^verbatim>\<open>Decr\<close>: one critical section under the write lock.
  \<open>found\<close> is the result of the map lookup, \<open>expired\<close> the test of the first \<^verbatim>\<open>if\<close>,
  \<open>c1\<close> the map after it, and \<open>live\<close> the entry as long as \<^verbatim>\<open>exists\<close> is still true
  after it. \<^verbatim>\<open>current\<close> starts at 0 and the error of \<^verbatim>\<open>json.Unmarshal\<close> is dropped.
\<close>

definition addDelta ::
  "MemoryCacheAdapter \<Rightarrow> Time \<Rightarrow> string \<Rightarrow> int64 \<Rightarrow>
     (int64 \<times> error option) \<times> MemoryCacheAdapter" where
  "addDelta m now key delta =
     (let found = map_of (cache m) key;
          expired = (case found of
                       None \<Rightarrow> False
                     | Some entry \<Rightarrow> \<not> IsZero (expireAt entry) \<and> After now (expireAt entry));
          c1 = (if expired then AList.delete key (cache m) else cache m);
          live = (if expired then None else found);
          current0 = (case live of
                        None \<Rightarrow> 0
                      | Some entry \<Rightarrow> fst (Unmarshal_int64 (data entry) 0));
          current = current0 + delta
      in
        (case Marshal_int64 current of
           Inl err \<Rightarrow> ((0, Some err), m\<lparr>cache := c1\<rparr>)
         | Inr payload \<Rightarrow>
             (let expAt = (case live of None \<Rightarrow> zeroTime | Some entry \<Rightarrow> expireAt entry)
              in ((current, None),
                  m\<lparr>cache := AList.update key \<lparr>data = payload, expireAt = expAt\<rparr> c1\<rparr>))))"

definition mem_Incr ::
  "MemoryCacheAdapter \<Rightarrow> Time \<Rightarrow> string \<Rightarrow> (int64 \<times> error option) \<times> MemoryCacheAdapter" where
  "mem_Incr m now key = addDelta m now key 1"

definition mem_Decr ::
  "MemoryCacheAdapter \<Rightarrow> Time \<Rightarrow> string \<Rightarrow> (int64 \<times> error option) \<times> MemoryCacheAdapter" where
  "mem_Decr m now key = addDelta m now key (- 1)"

section \<open>The monitor (monitor.go)\<close>

text \<open>
  Go's \<^verbatim>\<open>/\<close> on \<^verbatim>\<open>int64\<close> truncates towards zero. Neither caller below divides by
  zero: \<^verbatim>\<open>track\<close> tests the length first, and a normalized page size is at least 1.
\<close>

definition int64_quo :: "int64 \<Rightarrow> int64 \<Rightarrow> int64" where
  "int64_quo a b = word_of_int (sgn (sint a) * sgn (sint b) * (\<bar>sint a\<bar> div \<bar>sint b\<bar>))"

record CacheMetrics =
  HitCount :: int64
  MissCount :: int64
  EvictionCount :: int64
  LastUpdate :: Time
  AvgResponseTime :: Duration

record Monitor =
  metrics :: CacheMetrics
  tracker :: "Duration list"
  maxTrack :: int

definition NewMonitor :: "Time \<Rightarrow> Monitor" where
  "NewMonitor now =
     \<lparr>metrics = \<lparr>HitCount = 0, MissCount = 0, EvictionCount = 0, LastUpdate = now,
                  AvgResponseTime = 0\<rparr>,
      tracker = [], maxTrack = 1000\<rparr>"

text \<open>\<^verbatim>\<open>track\<close>; \<open>now\<close> is its reading of \<^verbatim>\<open>time.Now()\<close>.\<close>

definition track :: "Monitor \<Rightarrow> Duration \<Rightarrow> Time \<Rightarrow> Monitor" where
  "track m duration now =
     (let tr0 = tracker m @ [duration];
          tr = (if maxTrack m < int (length tr0) then tl tr0 else tr0);
          tot = sum_list tr;
          met = (if 0 < length tr
                 then (metrics m)\<lparr>AvgResponseTime := int64_quo tot (of_nat (length tr))\<rparr>
                 else metrics m)
      in m\<lparr>tracker := tr, metrics := met\<lparr>LastUpdate := now\<rparr>\<rparr>)"

definition RecordHit :: "Monitor \<Rightarrow> Duration \<Rightarrow> Time \<Rightarrow> Monitor" where
  "RecordHit m duration now =
     track (m\<lparr>metrics := (metrics m)\<lparr>HitCount := HitCount (metrics m) + 1\<rparr>\<rparr>) duration now"

definition RecordMiss :: "Monitor \<Rightarrow> Duration \<Rightarrow> Time \<Rightarrow> Monitor" where
  "RecordMiss m duration now =
     track (m\<lparr>metrics := (metrics m)\<lparr>MissCount := MissCount (metrics m) + 1\<rparr>\<rparr>) duration now"

section \<open>Tickets\<close>

record CacheTicket =
  UserID :: string
  Token :: string
  IssuedAt :: Time
  ExpiresAt :: Time

text \<open>\<^verbatim>\<open>Validate\<close> on a ticket pointer (\<open>None\<close> is \<^verbatim>\<open>nil\<close>), at the clock reading \<open>now\<close>.\<close>

definition Validate :: "CacheTicket option \<Rightarrow> Time \<Rightarrow> error option" where
  "Validate t now =
     (case t of
        None \<Rightarrow> Some ErrInvalidTicket
      | Some tk \<Rightarrow>
          if Token tk = [] then Some ErrInvalidTicket
          else if After now (ExpiresAt tk) then Some ErrTicketExpired
          else None)"

section \<open>The manager and the generic query (manager.go)\<close>

text \<open>
  The interface \<^verbatim>\<open>Adapter\<close>, with the methods the functions below call. An interface
  value is a method table over a backend that the methods mutate: the table is the
  record, the backend a state \<open>'s\<close> passed in and returned. \<open>'v\<close> is the type of the
  values handed to \<^verbatim>\<open>Set\<close>. A method that reads the clock is given the reading.
  Where two structs share a field name, the later one's fields carry a prefix
  (\<open>mgr_\<close>, \<open>opt_\<close>, \<open>resp_\<close>).
\<close>

record ('s, 'v) Adapter =
  adapter_Get :: "'s \<Rightarrow> Time \<Rightarrow> string \<Rightarrow> (bytes option \<times> error option) \<times> 's"
  adapter_Set :: "'s \<Rightarrow> Time \<Rightarrow> string \<Rightarrow> 'v \<Rightarrow> Duration \<Rightarrow> error option \<times> 's"
  adapter_DeletePattern :: "'s \<Rightarrow> string \<Rightarrow> (int64 \<times> error option) \<times> 's"

text \<open>\<^verbatim>\<open>*MemoryCacheAdapter\<close> as an \<^verbatim>\<open>Adapter\<close>.\<close>

definition MemoryAdapter :: "('v \<Rightarrow> error + bytes) \<Rightarrow> (MemoryCacheAdapter, 'v) Adapter" where
  "MemoryAdapter marshal =
     \<lparr>adapter_Get = mem_Get, adapter_Set = mem_Set marshal,
      adapter_DeletePattern = mem_DeletePattern\<rparr>"

record ('s, 'v) Manager =
  adapter :: "('s, 'v) Adapter option"
  mgr_defaultTTL :: Duration
  monitor :: "Monitor option"

definition NewManagerWithAdapter ::
  "('s, 'v) Adapter option \<Rightarrow> Duration \<Rightarrow> Time \<Rightarrow> ('s, 'v) Manager" where
  "NewManagerWithAdapter ad dttl now =
     \<lparr>adapter = ad, mgr_defaultTTL = dttl, monitor = Some (NewMonitor now)\<rparr>"

definition Manager_DeletePattern ::
  "('s, 'v) Manager \<Rightarrow> 's \<Rightarrow> string \<Rightarrow> (int64 \<times> error option) \<times> 's" where
  "Manager_DeletePattern mgr s pattern =
     (case adapter mgr of
        None \<Rightarrow> ((0, Some ErrAdapterNil), s)
      | Some ad \<Rightarrow> adapter_DeletePattern ad s pattern)"

record QueryOptions =
  opt_TTL :: Duration
  opt_UseCache :: bool
  opt_Ticket :: "CacheTicket option"

type_synonym QueryOption = "QueryOptions \<Rightarrow> QueryOptions"

definition WithTTL :: "Duration \<Rightarrow> QueryOption" where
  "WithTTL ttl opts = opts\<lparr>opt_TTL := ttl\<rparr>"

definition WithNoCache :: QueryOption where
  "WithNoCache opts = opts\<lparr>opt_UseCache := False\<rparr>"

definition WithTicket :: "CacheTicket option \<Rightarrow> QueryOption" where
  "WithTicket ticket opts = opts\<lparr>opt_Ticket := ticket\<rparr>"

text \<open>
  The clock readings of one call of \<^verbatim>\<open>Query\<close>: by \<^verbatim>\<open>Validate\<close>, by the adapter's
  \<^verbatim>\<open>Get\<close>, the latency \<^verbatim>\<open>time.Since(start)\<close> measured around it, by the monitor's
  \<^verbatim>\<open>track\<close>, and by the adapter's \<^verbatim>\<open>Set\<close>.
\<close>

record QueryClock =
  t_validate :: Time
  t_get :: Time
  elapsed :: Duration
  t_track :: Time
  t_set :: Time

text \<open>
  What a call of \<^verbatim>\<open>Query\<close> leaves: the two returned values, the backend, the
  manager's monitor, and the state \<open>'w\<close> the producer works on. The producer
  \<^verbatim>\<open>queryFunc\<close> is a closure: a function from that state to its two results and the
  state afterwards.
\<close>

record ('t, 's, 'w) QueryResult =
  q_value :: 't
  q_err :: "error option"
  q_backend :: 's
  q_monitor :: "Monitor option"
  q_world :: 'w

text \<open>
  Lines 211 to 226 of \<^verbatim>\<open>Query\<close>, the lookup: the cached value when the call returns
  it, the backend and the monitor afterwards. \<open>unmarshal\<close> is \<^verbatim>\<open>json.Unmarshal\<close> at the
  result type: from the payload and the destination's value to the destination's value
  afterwards and the error. \<open>zero\<close> is the zero value of the result type.
\<close>

definition Query_lookup ::
  "(bytes \<Rightarrow> 't \<Rightarrow> 't \<times> error option) \<Rightarrow> 't \<Rightarrow> QueryClock \<Rightarrow> ('s, 't) Adapter \<Rightarrow>
     Monitor option \<Rightarrow> 's \<Rightarrow> string \<Rightarrow> QueryOptions \<Rightarrow> 't option \<times> 's \<times> Monitor option" where
  "Query_lookup unmarshal zero clk ad mon s key options =
     (if opt_UseCache options then
        (case adapter_Get ad s (t_get clk) key of
           ((Some dat, None), s1) \<Rightarrow>
             (let mon1 = map_option (\<lambda>mo. RecordHit mo (elapsed clk) (t_track clk)) mon in
              case unmarshal dat zero of
                (cached, None) \<Rightarrow> (Some cached, s1, mon1)
              | (_, Some _) \<Rightarrow> (None, s1, mon1))
         | (_, s1) \<Rightarrow>
             (None, s1, map_option (\<lambda>mo. RecordMiss mo (elapsed clk) (t_track clk)) mon))
      else (None, s, mon))"

text \<open>Lines 228 to 242 of \<^verbatim>\<open>Query\<close>: the producer and the write.\<close>

definition Query_produce ::
  "'t \<Rightarrow> QueryClock \<Rightarrow> ('s, 't) Adapter \<Rightarrow> ('s, 't) Manager \<Rightarrow> QueryOptions \<Rightarrow> 's \<Rightarrow>
     Monitor option \<Rightarrow> 'w \<Rightarrow> string \<Rightarrow> ('w \<Rightarrow> ('t \<times> error option) \<times> 'w) \<Rightarrow>
     ('t, 's, 'w) QueryResult" where
  "Query_produce zero clk ad mgr options s1 mon1 w key queryFunc =
     (case queryFunc w of
        ((result, Some err), w1) \<Rightarrow>
          \<lparr>q_value = zero, q_err = Some err, q_backend = s1, q_monitor = mon1, q_world = w1\<rparr>
      | ((result, None), w1) \<Rightarrow>
          if opt_UseCache options then
            (let ttl = (if opt_TTL options = 0 then mgr_defaultTTL mgr else opt_TTL options);
                 s2 = snd (adapter_Set ad s1 (t_set clk) key result ttl)
             in \<lparr>q_value = result, q_err = None, q_backend = s2, q_monitor = mon1,
                  q_world = w1\<rparr>)
          else
            \<lparr>q_value = result, q_err = None, q_backend = s1, q_monitor = mon1, q_world = w1\<rparr>)"

text \<open>
  \<^verbatim>\<open>Query\<close>. Lines 197 to 203 build the options, lines 205 to 209 validate the
  ticket when there is one.
\<close>

definition Query_options :: "('s, 't) Manager \<Rightarrow> QueryOption list \<Rightarrow> QueryOptions" where
  "Query_options mgr opts =
     fold (\<lambda>opt acc. opt acc) opts
       \<lparr>opt_TTL = mgr_defaultTTL mgr, opt_UseCache = True, opt_Ticket = None\<rparr>"

definition Query_validate :: "QueryOptions \<Rightarrow> QueryClock \<Rightarrow> error option" where
  "Query_validate options clk =
     (case opt_Ticket options of
        None \<Rightarrow> None
      | Some tk \<Rightarrow> Validate (Some tk) (t_validate clk))"

definition Query ::
  "(bytes \<Rightarrow> 't \<Rightarrow> 't \<times> error option) \<Rightarrow> 't \<Rightarrow> QueryClock \<Rightarrow> ('s, 't) Manager option \<Rightarrow> 's \<Rightarrow>
     'w \<Rightarrow> string \<Rightarrow> ('w \<Rightarrow> ('t \<times> error option) \<times> 'w) \<Rightarrow> QueryOption list \<Rightarrow>
     ('t, 's, 'w) QueryResult" where
  "Query unmarshal zero clk manager s w key queryFunc opts =
     (case manager of
        None \<Rightarrow>
          \<lparr>q_value = zero, q_err = Some ErrManagerNil, q_backend = s, q_monitor = None,
           q_world = w\<rparr>
      | Some mgr \<Rightarrow>
          (case adapter mgr of
             None \<Rightarrow>
               \<lparr>q_value = zero, q_err = Some ErrAdapterNil, q_backend = s,
                q_monitor = monitor mgr, q_world = w\<rparr>
           | Some ad \<Rightarrow>
               (let options = Query_options mgr opts in
                  (case Query_validate options clk of
                     Some err \<Rightarrow>
                       \<lparr>q_value = zero, q_err = Some err, q_backend = s,
                        q_monitor = monitor mgr, q_world = w\<rparr>
                   | None \<Rightarrow>
                       (case Query_lookup unmarshal zero clk ad (monitor mgr) s key options of
                          (Some cached, s1, mon1) \<Rightarrow>
                            \<lparr>q_value = cached, q_err = None, q_backend = s1,
                             q_monitor = mon1, q_world = w\<rparr>
                        | (None, s1, mon1) \<Rightarrow>
                            Query_produce zero clk ad mgr options s1 mon1 w key queryFunc)))))"

section \<open>Pagination (pagination.go)\<close>

definition DefaultPageSize :: int where
  "DefaultPageSize = 20"

definition DefaultPage :: int where
  "DefaultPage = 1"

definition MaxPageSize :: int where
  "MaxPageSize = 200"

record PaginationParams =
  Page :: int
  PageSize :: int
  UseCache :: bool

text \<open>
  \<^verbatim>\<open>NormalizePaginationParams\<close>. The argument is a pointer, \<open>None\<close> for \<^verbatim>\<open>nil\<close>; the
  function writes through it and returns it, so the result is also what the caller's
  struct holds afterwards.
\<close>

definition NormalizePaginationParams :: "PaginationParams option \<Rightarrow> PaginationParams" where
  "NormalizePaginationParams params =
     (case params of
        None \<Rightarrow> \<lparr>Page = DefaultPage, PageSize = DefaultPageSize, UseCache = True\<rparr>
      | Some p \<Rightarrow>
          (let p1 = (if Page p \<le> 0 then p\<lparr>Page := DefaultPage\<rparr> else p);
               p2 = (if PageSize p1 \<le> 0 then p1\<lparr>PageSize := DefaultPageSize\<rparr> else p1);
               p3 = (if MaxPageSize < PageSize p2 then p2\<lparr>PageSize := MaxPageSize\<rparr> else p2)
           in p3))"

text \<open>
  \<^verbatim>\<open>GenerateCacheKey\<close>. The Go map \<^verbatim>\<open>filters\<close> is an association list with one pair
  per key, in the order \<^verbatim>\<open>range\<close> visits it; \<^verbatim>\<open>filters[k]\<close> of a key the map lacks is
  the \<^verbatim>\<open>nil\<close> interface, which marshals to \<^verbatim>\<open>null\<close>. \<^verbatim>\<open>sort.Strings\<close> sorts by the
  byte-wise order of Go strings. The error of \<^verbatim>\<open>json.Marshal\<close> is dropped, and with it
  the payload is \<^verbatim>\<open>nil\<close>, the empty string.
\<close>

definition marshal_string :: "('v \<Rightarrow> error + bytes) \<Rightarrow> 'v option \<Rightarrow> string" where
  "marshal_string marshal v =
     (case v of
        None \<Rightarrow> ''null''
      | Some x \<Rightarrow> (case marshal x of Inl err \<Rightarrow> [] | Inr payload \<Rightarrow> payload))"

definition GenerateCacheKey ::
  "('v \<Rightarrow> error + bytes) \<Rightarrow> string \<Rightarrow> (string \<times> 'v) list \<Rightarrow> PaginationParams option \<Rightarrow> string" where
  "GenerateCacheKey marshal resource filters params =
     (let p = NormalizePaginationParams params;
          parts0 = [resource];
          parts1 =
            (if 0 < length filters then
               (let keys = sort (map fst filters)
                in parts0 @ concat (map (\<lambda>k. [k, marshal_string marshal (map_of filters k)]) keys))
             else parts0);
          parts2 = parts1 @ [''page'', int_dec (Page p), ''size'', int_dec (PageSize p)]
      in Join parts2 '':'')"

text \<open>
  \<^verbatim>\<open>hex.EncodeToString\<close>, and \<^verbatim>\<open>GenerateDataHash\<close> over \<^verbatim>\<open>sha256.Sum256\<close>, which is a
  parameter. The error of \<^verbatim>\<open>json.Marshal\<close> is dropped: the hash is then that of the
  empty payload.
\<close>

definition hexdigit :: "nat \<Rightarrow> char" where
  "hexdigit n = (if n < 10 then char_of (48 + n) else char_of (87 + n))"

definition EncodeToString :: "bytes \<Rightarrow> string" where
  "EncodeToString bs =
     concat (map (\<lambda>c. [hexdigit ((of_char c :: nat) div 16), hexdigit ((of_char c :: nat) mod 16)]) bs)"

definition GenerateDataHash :: "('d \<Rightarrow> error + bytes) \<Rightarrow> (bytes \<Rightarrow> bytes) \<Rightarrow> 'd \<Rightarrow> string" where
  "GenerateDataHash marshal sha256 dat =
     (let payload = (case marshal dat of Inl err \<Rightarrow> [] | Inr p \<Rightarrow> p)
      in EncodeToString (sha256 payload))"

text \<open>
  \<^verbatim>\<open>PaginationResponse\<close> and \<^verbatim>\<open>BuildPaginationResponse\<close>. The slice \<^verbatim>\<open>data\<close> is a
  list, \<open>None\<close> for the \<^verbatim>\<open>nil\<close> slice (JSON tells the two apart). \<^verbatim>\<open>total\<close>, here
  \<open>tot\<close>, is an \<^verbatim>\<open>int64\<close> and the page count is computed in \<^verbatim>\<open>int64\<close>.
\<close>

record 'a PaginationResponse =
  resp_Data :: "'a list option"
  resp_Total :: int64
  resp_Page :: int
  resp_PageSize :: int
  resp_TotalPages :: int
  resp_FromCache :: bool
  resp_CacheKey :: string
  resp_DataHash :: string

definition BuildPaginationResponse ::
  "('a list option \<Rightarrow> error + bytes) \<Rightarrow> (bytes \<Rightarrow> bytes) \<Rightarrow> 'a list option \<Rightarrow> int64 \<Rightarrow>
     PaginationParams option \<Rightarrow> string \<Rightarrow> bool \<Rightarrow> 'a PaginationResponse" where
  "BuildPaginationResponse marshal sha256 dat tot params cacheKey fromCache =
     (let p = NormalizePaginationParams params;
          pages = sint (int64_quo (tot + word_of_int (PageSize p) - 1) (word_of_int (PageSize p)))
      in \<lparr>resp_Data = dat, resp_Total = tot, resp_Page = Page p, resp_PageSize = PageSize p,
          resp_TotalPages = pages, resp_FromCache = fromCache, resp_CacheKey = cacheKey,
          resp_DataHash = GenerateDataHash marshal sha256 dat\<rparr>)"

text \<open>\<^verbatim>\<open>InvalidateCacheOnUpdate\<close>.\<close>

definition InvalidateCacheOnUpdate ::
  "('s, 'v) Manager option \<Rightarrow> 's \<Rightarrow> string \<Rightarrow> (int64 \<times> error option) \<times> 's" where
  "InvalidateCacheOnUpdate manager s resource =
     (case manager of
        None \<Rightarrow> ((0, Some ErrManagerNil), s)
      | Some mgr \<Rightarrow> Manager_DeletePattern mgr s (resource @ '':''))"

section \<open>Example inputs\<close>

text \<open>
  An adapter whose backend cannot be reached (the Redis adapter with the server down):
  every method fails. It has no state of its own.
\<close>

definition unreachableAdapter :: "(unit, int64) Adapter" where
  "unreachableAdapter =
     \<lparr>adapter_Get = (\<lambda>s t k. ((None, Some (ErrorsNew ''connection refused'')), s)),
      adapter_Set = (\<lambda>s t k v d. (Some (ErrorsNew ''connection refused''), s)),
      adapter_DeletePattern = (\<lambda>s p. ((0, Some (ErrorsNew ''connection refused'')), s))\<rparr>"

text \<open>A call of \<^verbatim>\<open>Query\<close> at time 10 whose lookup took 3 nanoseconds.\<close>

definition exampleClock :: QueryClock where
  "exampleClock = \<lparr>t_validate = 10, t_get = 10, elapsed = 3, t_track = 10, t_set = 10\<rparr>"

section \<open>Properties of the in-memory adapter\<close>

subsection \<open>What \<^verbatim>\<open>Set\<close> stores and what \<^verbatim>\<open>Get\<close> returns\<close>

lemma map_of_update_same: "map_of (AList.update k v al) k = Some v"
  by (simp add: update_conv')

lemma mem_Get_live:
  assumes "map_of (cache m) k = Some e" and "IsZero (expireAt e) \<or> \<not> After t (expireAt e)"
  shows "mem_Get m t k = ((Some (data e), None), m)"
  using assms by (auto simp: mem_Get_def mem_Get_read_def mem_Get_finish_def)

lemma mem_Get_expired:
  assumes "map_of (cache m) k = Some e" and "\<not> IsZero (expireAt e)" and "After t (expireAt e)"
  shows "mem_Get m t k = ((None, None), m\<lparr>cache := AList.delete k (cache m)\<rparr>)"
  using assms by (auto simp: mem_Get_def mem_Get_read_def mem_Get_finish_def)

lemma mem_Get_absent:
  assumes "map_of (cache m) k = None"
  shows "mem_Get m t k = ((None, None), m)"
  using assms by (simp add: mem_Get_def mem_Get_read_def mem_Get_finish_def)

lemma mem_Set_entry:
  assumes "marshal v = Inr p"
  shows "mem_Set marshal m now k v ttl =
    (None, m\<lparr>cache := AList.update k \<lparr>data = p,
        expireAt = (if 0 < sint (if ttl = 0 then defaultTTL m else ttl)
                    then Add now (if ttl = 0 then defaultTTL m else ttl) else zeroTime)\<rparr>
        (cache m)\<rparr>)"
  using assms by (simp add: mem_Set_def Let_def)

lemma Marshal_int64_7: "Marshal_int64 7 = Inr ''7''"
  by code_simp

lemma mem_Set_fails:
  assumes "marshal v = Inl e"
  shows "mem_Set marshal m now k v ttl = (Some (Errorf ''marshal value failed'' e), m)"
  using assms by (simp add: mem_Set_def)

lemma Marshal_value_7: "Marshal_value (VInt64 7) = Inr ''7''"
  by (simp add: Marshal_int64_7)

text \<open>
  Claim C3, as the code has it. For a value that \<^verbatim>\<open>json.Marshal\<close> refuses, \<^verbatim>\<open>Set\<close>
  returns the wrapped error and leaves the adapter as it was. For a value that it
  encodes, \<^verbatim>\<open>Set\<close> with \<open>ttl = 0\<close> returns no error and stores the payload with the
  adapter's default TTL in place of \<open>ttl\<close>. Let \<open>m2\<close> be any later state of the adapter.
  \<^item> The default is strictly positive, so the entry expires at the set instant plus the
    default. If the key holds that entry or no entry in \<open>m2\<close>, \<^verbatim>\<open>Get\<close> at any time
    strictly after that instant reports the key absent (the set instant being no earlier
    than the zero value of \<^verbatim>\<open>time.Time\<close>). If the key still holds that entry in \<open>m2\<close>,
    \<^verbatim>\<open>Get\<close> at any time up to that instant returns the payload.
  \<^item> The default is zero or negative, so the entry has the zero expiry. If the key still
    holds that entry in \<open>m2\<close>, \<^verbatim>\<open>Get\<close> returns the payload at every time.
\<close>

theorem Set_zero_ttl_applies_default:
  "(\<forall>e. marshal v = Inl e \<longrightarrow>
      mem_Set marshal m now k v 0 = (Some (Errorf ''marshal value failed'' e), m))
   \<and> (\<forall>p. marshal v = Inr p \<longrightarrow>
        fst (mem_Set marshal m now k v 0) = None
        \<and> map_of (cache (snd (mem_Set marshal m now k v 0))) k =
            Some \<lparr>data = p,
                  expireAt = (if 0 < sint (defaultTTL m) then Add now (defaultTTL m)
                              else zeroTime)\<rparr>
        \<and> (0 < sint (defaultTTL m) \<and> zeroTime \<le> now \<and> Add now (defaultTTL m) < t
            \<and> (map_of (cache m2) k = None
                \<or> map_of (cache m2) k = map_of (cache (snd (mem_Set marshal m now k v 0))) k) \<longrightarrow>
              fst (mem_Get m2 t k) = (None, None))
        \<and> (0 < sint (defaultTTL m) \<and> t \<le> Add now (defaultTTL m)
            \<and> map_of (cache m2) k = map_of (cache (snd (mem_Set marshal m now k v 0))) k \<longrightarrow>
              mem_Get m2 t k = ((Some p, None), m2))
        \<and> (sint (defaultTTL m) \<le> 0
            \<and> map_of (cache m2) k = map_of (cache (snd (mem_Set marshal m now k v 0))) k \<longrightarrow>
              mem_Get m2 t k = ((Some p, None), m2)))"
proof -
  have fails: "mem_Set marshal m now k v 0 = (Some (Errorf ''marshal value failed'' e), m)"
    if "marshal v = Inl e" for e
    using that by (rule mem_Set_fails)
  have stores: "fst (mem_Set marshal m now k v 0) = None
        \<and> map_of (cache (snd (mem_Set marshal m now k v 0))) k =
            Some \<lparr>data = p,
                  expireAt = (if 0 < sint (defaultTTL m) then Add now (defaultTTL m)
                              else zeroTime)\<rparr>
        \<and> (0 < sint (defaultTTL m) \<and> zeroTime \<le> now \<and> Add now (defaultTTL m) < t
            \<and> (map_of (cache m2) k = None
                \<or> map_of (cache m2) k = map_of (cache (snd (mem_Set marshal m now k v 0))) k) \<longrightarrow>
              fst (mem_Get m2 t k) = (None, None))
        \<and> (0 < sint (defaultTTL m) \<and> t \<le> Add now (defaultTTL m)
            \<and> map_of (cache m2) k = map_of (cache (snd (mem_Set marshal m now k v 0))) k \<longrightarrow>
              mem_Get m2 t k = ((Some p, None), m2))
        \<and> (sint (defaultTTL m) \<le> 0
            \<and> map_of (cache m2) k = map_of (cache (snd (mem_Set marshal m now k v 0))) k \<longrightarrow>
              mem_Get m2 t k = ((Some p, None), m2))"
    if mp: "marshal v = Inr p" for p
  proof -
    note S = mem_Set_entry [where marshal = marshal and v = v, OF mp]
    let ?e = "\<lparr>data = p,
               expireAt = (if 0 < sint (defaultTTL m) then Add now (defaultTTL m) else zeroTime)\<rparr>"
    have ok: "fst (mem_Set marshal m now k v 0) = None"
      by (simp add: S)
    have e: "map_of (cache (snd (mem_Set marshal m now k v 0))) k = Some ?e"
      by (simp add: S map_of_update_same)
    have a: "fst (mem_Get m2 t k) = (None, None)"
      if "0 < sint (defaultTTL m)" "zeroTime \<le> now" "Add now (defaultTTL m) < t"
        "map_of (cache m2) k = None
         \<or> map_of (cache m2) k = map_of (cache (snd (mem_Set marshal m now k v 0))) k"
    proof (cases "map_of (cache m2) k")
      case None
      then show ?thesis by (simp add: mem_Get_absent)
    next
      case (Some x)
      then have e2: "map_of (cache m2) k = Some ?e"
        using that(4) e by simp
      have "\<not> IsZero (expireAt ?e)"
        using that(1,2) by (simp add: IsZero_def Add_def zeroTime_def)
      moreover have "After t (expireAt ?e)"
        using that(1,3) by (simp add: After_def)
      ultimately show ?thesis
        using mem_Get_expired [OF e2] by simp
    qed
    have b: "mem_Get m2 t k = ((Some p, None), m2)"
      if "0 < sint (defaultTTL m)" "t \<le> Add now (defaultTTL m)"
        "map_of (cache m2) k = map_of (cache (snd (mem_Set marshal m now k v 0))) k"
    proof -
      have e2: "map_of (cache m2) k = Some ?e"
        using that(3) e by simp
      have "\<not> After t (expireAt ?e)"
        using that(1,2) by (simp add: After_def)
      then show ?thesis
        using mem_Get_live [OF e2] by simp
    qed
    have c: "mem_Get m2 t k = ((Some p, None), m2)"
      if "sint (defaultTTL m) \<le> 0"
        "map_of (cache m2) k = map_of (cache (snd (mem_Set marshal m now k v 0))) k"
    proof -
      have e2: "map_of (cache m2) k = Some ?e"
        using that(2) e by simp
      have "IsZero (expireAt ?e)"
        using that(1) by (simp add: IsZero_def)
      then show ?thesis
        using mem_Get_live [OF e2] by simp
    qed
    show ?thesis
      using ok e a b c by blast
  qed
  show ?thesis
    using fails stores by blast
qed

text \<open>
  An adapter with default TTL 60 at time 1000. \<^verbatim>\<open>Set\<close> of a channel with \<open>ttl = 0\<close>
  fails and stores nothing. After \<^verbatim>\<open>Set\<close> of the number 7 with \<open>ttl = 0\<close> the key is
  absent at 1061 and still there at 1060.
\<close>

theorem Set_zero_ttl_applies_default_witness:
  "mem_Set Marshal_value (NewMemoryCacheAdapter 60) 1000 ''k'' VChan 0 =
     (Some (Errorf ''marshal value failed'' (JSONError ''json: unsupported type: chan int'')),
      NewMemoryCacheAdapter 60)
   \<and> 0 < sint (60 :: Duration) \<and> zeroTime \<le> 1000 \<and> Add 1000 60 < 1061
   \<and> fst (mem_Get (snd (mem_Set Marshal_value (NewMemoryCacheAdapter 60) 1000 ''k'' (VInt64 7) 0))
          1061 ''k'') = (None, None)
   \<and> mem_Get (snd (mem_Set Marshal_value (NewMemoryCacheAdapter 60) 1000 ''k'' (VInt64 7) 0))
        1060 ''k'' =
     ((Some ''7'', None),
      snd (mem_Set Marshal_value (NewMemoryCacheAdapter 60) 1000 ''k'' (VInt64 7) 0))"
proof -
  let ?m = "NewMemoryCacheAdapter 60"
  let ?m1 = "snd (mem_Set Marshal_value ?m 1000 ''k'' (VInt64 7) 0)"
  have h1: "zeroTime \<le> 1000"
    by (simp add: zeroTime_def)
  have d: "defaultTTL ?m = 60"
    by (simp add: NewMemoryCacheAdapter_def)
  have h3: "0 < sint (60 :: Duration)"
    by simp
  have h4: "Add 1000 60 < 1061" "1060 \<le> Add 1000 60"
    by (simp_all add: Add_def)
  have c: "Marshal_value VChan = Inl (JSONError ''json: unsupported type: chan int'')"
    by simp
  have a: "mem_Set Marshal_value ?m 1000 ''k'' VChan 0 =
     (Some (Errorf ''marshal value failed'' (JSONError ''json: unsupported type: chan int'')), ?m)"
    using Set_zero_ttl_applies_default [of Marshal_value VChan ?m 1000 "''k''"] c by blast
  have b: "fst (mem_Get ?m1 1061 ''k'') = (None, None)"
    using Set_zero_ttl_applies_default [of Marshal_value "VInt64 7" ?m 1000 "''k''" 1061 ?m1]
      Marshal_value_7 h1 h3 h4 d by simp
  have e: "mem_Get ?m1 1060 ''k'' = ((Some ''7'', None), ?m1)"
    using Set_zero_ttl_applies_default [of Marshal_value "VInt64 7" ?m 1000 "''k''" 1060 ?m1]
      Marshal_value_7 h1 h3 h4 d by simp
  show ?thesis
    using a b e h1 h3 h4 by simp
qed

text \<open>
  Claim C3 as it is written fails on an adapter whose default TTL is 0, which is what
  \<^verbatim>\<open>NewManager(nil)\<close> builds: after \<^verbatim>\<open>Set\<close> with \<open>ttl = 0\<close> at time 1000, \<^verbatim>\<open>Get\<close>
  strictly after the set instant plus the default still returns the payload.
\<close>

theorem Set_zero_ttl_counterexample:
  "fst (mem_Get (snd (mem_Set Marshal_int64 (NewMemoryCacheAdapter 0) 1000 ''k'' 7 0))
         (Add 1000 (defaultTTL (NewMemoryCacheAdapter 0)) + 1) ''k'') = (Some ''7'', None)"
  by (simp add: mem_Set_def Marshal_int64_7 NewMemoryCacheAdapter_def mem_Get_def
      mem_Get_read_def mem_Get_finish_def IsZero_def zeroTime_def)




subsection \<open>Counters\<close>

lemma Unmarshal_int64_error_keeps:
  "snd (Unmarshal_int64 dat z) \<noteq> None \<Longrightarrow> fst (Unmarshal_int64 dat z) = z"
  by (auto simp: Unmarshal_int64_def Let_def split: if_splits option.splits)

lemma map_of_update_other: "k' \<noteq> k \<Longrightarrow> map_of (AList.update k v al) k' = map_of al k'"
  by (simp add: update_conv')

lemma map_of_delete_other: "k' \<noteq> k \<Longrightarrow> map_of (AList.delete k al) k' = map_of al k'"
  by (simp add: delete_conv')

lemma addDelta_live:
  assumes "map_of (cache m) k = Some e" and "IsZero (expireAt e) \<or> \<not> After now (expireAt e)"
  shows "addDelta m now k d =
    ((fst (Unmarshal_int64 (data e) 0) + d, None),
     m\<lparr>cache := AList.update k
         \<lparr>data = int_dec (sint (fst (Unmarshal_int64 (data e) 0) + d)), expireAt = expireAt e\<rparr>
         (cache m)\<rparr>)"
  using assms by (auto simp: addDelta_def Let_def Marshal_int64_def)

lemma addDelta_expired:
  assumes "map_of (cache m) k = Some e" and "\<not> IsZero (expireAt e)" and "After now (expireAt e)"
  shows "addDelta m now k d =
    ((d, None),
     m\<lparr>cache := AList.update k \<lparr>data = int_dec (sint d), expireAt = zeroTime\<rparr>
         (AList.delete k (cache m))\<rparr>)"
  using assms by (auto simp: addDelta_def Let_def Marshal_int64_def)

lemma addDelta_absent:
  assumes "map_of (cache m) k = None"
  shows "addDelta m now k d =
    ((d, None),
     m\<lparr>cache := AList.update k \<lparr>data = int_dec (sint d), expireAt = zeroTime\<rparr> (cache m)\<rparr>)"
  using assms by (auto simp: addDelta_def Let_def Marshal_int64_def)

text \<open>
  Claim C7. \<^verbatim>\<open>Incr\<close> and \<^verbatim>\<open>Decr\<close> are \<^verbatim>\<open>addDelta\<close> with delta 1 and -1. When the key
  holds an entry that has not expired, the call returns the decoded counter plus the
  delta and the entry written back carries the expiry of the entry found; a payload that
  does not decode leaves the counter at zero, so the call returns the delta. When the
  key is absent, or holds only an expired entry, the call returns exactly the delta and
  stores the new entry with the zero expiry. No other key's entry changes.
\<close>

theorem addDelta_keeps_expiry:
  "(\<forall>e. map_of (cache m) k = Some e \<and> (IsZero (expireAt e) \<or> \<not> After now (expireAt e)) \<longrightarrow>
      fst (addDelta m now k d) = (fst (Unmarshal_int64 (data e) 0) + d, None)
      \<and> map_of (cache (snd (addDelta m now k d))) k =
          Some \<lparr>data = int_dec (sint (fst (Unmarshal_int64 (data e) 0) + d)),
                expireAt = expireAt e\<rparr>
      \<and> (snd (Unmarshal_int64 (data e) 0) \<noteq> None \<longrightarrow> fst (addDelta m now k d) = (d, None)))
   \<and> ((map_of (cache m) k = None
        \<or> (\<exists>e. map_of (cache m) k = Some e \<and> \<not> IsZero (expireAt e) \<and> After now (expireAt e))) \<longrightarrow>
      fst (addDelta m now k d) = (d, None)
      \<and> map_of (cache (snd (addDelta m now k d))) k =
          Some \<lparr>data = int_dec (sint d), expireAt = zeroTime\<rparr>)
   \<and> (\<forall>k'. k' \<noteq> k \<longrightarrow> map_of (cache (snd (addDelta m now k d))) k' = map_of (cache m) k')
   \<and> mem_Incr m now k = addDelta m now k 1 \<and> mem_Decr m now k = addDelta m now k (- 1)"
proof -
  have live: "fst (addDelta m now k d) = (fst (Unmarshal_int64 (data e) 0) + d, None)
      \<and> map_of (cache (snd (addDelta m now k d))) k =
          Some \<lparr>data = int_dec (sint (fst (Unmarshal_int64 (data e) 0) + d)),
                expireAt = expireAt e\<rparr>
      \<and> (snd (Unmarshal_int64 (data e) 0) \<noteq> None \<longrightarrow> fst (addDelta m now k d) = (d, None))"
    if "map_of (cache m) k = Some e" "IsZero (expireAt e) \<or> \<not> After now (expireAt e)" for e
    using addDelta_live [OF that, of d] Unmarshal_int64_error_keeps [of "data e" 0]
    by (auto simp: map_of_update_same)
  have fresh: "fst (addDelta m now k d) = (d, None)
      \<and> map_of (cache (snd (addDelta m now k d))) k =
          Some \<lparr>data = int_dec (sint d), expireAt = zeroTime\<rparr>"
    if "map_of (cache m) k = None
        \<or> (\<exists>e. map_of (cache m) k = Some e \<and> \<not> IsZero (expireAt e) \<and> After now (expireAt e))"
    using that addDelta_absent [of m k now d] addDelta_expired [of m k _ now d]
    by (auto simp: map_of_update_same)
  have frame: "map_of (cache (snd (addDelta m now k d))) k' = map_of (cache m) k'"
    if "k' \<noteq> k" for k'
  proof (cases "map_of (cache m) k")
    case None
    then show ?thesis
      using that by (simp add: addDelta_absent map_of_update_other)
  next
    case (Some e)
    show ?thesis
    proof (cases "\<not> IsZero (expireAt e) \<and> After now (expireAt e)")
      case True
      then show ?thesis
        using that Some
        by (simp add: addDelta_expired [of m k e] map_of_update_other)
    next
      case False
      then show ?thesis
        using that Some by (simp add: addDelta_live [of m k e] map_of_update_other)
    qed
  qed
  show ?thesis
    unfolding mem_Incr_def mem_Decr_def using live fresh frame by blast
qed

text \<open>
  Claim C7 on four adapters at time 100: a live counter 41 that expires at 500 is
  incremented to 42 and still expires at 500; a live entry holding \<^verbatim>\<open>true\<close> counts as
  zero; a counter that expired at 50 is restarted and \<^verbatim>\<open>Decr\<close> returns -1, stored with
  no expiry; on an empty adapter \<^verbatim>\<open>Incr\<close> returns 1.
\<close>

theorem addDelta_keeps_expiry_witness:
  "fst (mem_Incr \<lparr>cache = [(''n'', \<lparr>data = ''41'', expireAt = 500\<rparr>)], defaultTTL = 0\<rparr> 100 ''n'')
     = (42, None)
   \<and> map_of (cache (snd (mem_Incr
        \<lparr>cache = [(''n'', \<lparr>data = ''41'', expireAt = 500\<rparr>)], defaultTTL = 0\<rparr> 100 ''n''))) ''n''
       = Some \<lparr>data = ''42'', expireAt = 500\<rparr>
   \<and> fst (mem_Incr \<lparr>cache = [(''n'', \<lparr>data = ''true'', expireAt = 500\<rparr>)], defaultTTL = 0\<rparr>
          100 ''n'')
     = (1, None)
   \<and> fst (mem_Decr \<lparr>cache = [(''n'', \<lparr>data = ''41'', expireAt = 50\<rparr>)], defaultTTL = 0\<rparr> 100 ''n'')
     = (- 1, None)
   \<and> map_of (cache (snd (mem_Decr
        \<lparr>cache = [(''n'', \<lparr>data = ''41'', expireAt = 50\<rparr>)], defaultTTL = 0\<rparr> 100 ''n''))) ''n''
       = Some \<lparr>data = ''-1'', expireAt = zeroTime\<rparr>
   \<and> fst (mem_Incr \<lparr>cache = [], defaultTTL = 0\<rparr> 100 ''n'') = (1, None)"
proof -
  let ?live = "\<lparr>cache = [(''n'', \<lparr>data = ''41'', expireAt = 500\<rparr>)], defaultTTL = 0\<rparr>"
  let ?corrupt = "\<lparr>cache = [(''n'', \<lparr>data = ''true'', expireAt = 500\<rparr>)], defaultTTL = 0\<rparr>"
  let ?old = "\<lparr>cache = [(''n'', \<lparr>data = ''41'', expireAt = 50\<rparr>)], defaultTTL = 0\<rparr>"
  let ?none = "\<lparr>cache = [], defaultTTL = 0 :: Duration\<rparr>"
  have u41: "Unmarshal_int64 ''41'' 0 = (41, None)"
    by code_simp
  have utrue: "Unmarshal_int64 ''true'' 0 =
      (0, Some (JSONError ''cannot unmarshal into Go value of type int64''))"
    by code_simp
  have d42: "int_dec 42 = ''42''" and dm1: "int_dec (- 1) = ''-1''"
    by code_simp+
  have a: "fst (mem_Incr ?live 100 ''n'') = (42, None)
      \<and> map_of (cache (snd (mem_Incr ?live 100 ''n''))) ''n'' =
          Some \<lparr>data = ''42'', expireAt = 500\<rparr>"
    using addDelta_keeps_expiry [of ?live "''n''" 100 1]
    by (simp add: After_def u41 d42)
  have b: "fst (mem_Incr ?corrupt 100 ''n'') = (1, None)"
    using addDelta_keeps_expiry [of ?corrupt "''n''" 100 1]
    by (simp add: After_def utrue)
  have c: "fst (mem_Decr ?old 100 ''n'') = (- 1, None)
      \<and> map_of (cache (snd (mem_Decr ?old 100 ''n''))) ''n'' =
          Some \<lparr>data = ''-1'', expireAt = zeroTime\<rparr>"
    using addDelta_keeps_expiry [of ?old "''n''" 100 "- 1"]
    by (simp add: After_def IsZero_def zeroTime_def dm1)
  have d: "fst (mem_Incr ?none 100 ''n'') = (1, None)"
    using addDelta_keeps_expiry [of ?none "''n''" 100 1]
    by simp
  show ?thesis
    using a b c d by simp
qed

subsection \<open>Deleting by prefix\<close>

lemma delete_as_filter: "AList.delete k c = filter (\<lambda>kv. fst kv \<noteq> k) c"
  by (induct c) auto

lemma DeletePattern_loop_eq:
  "DeletePattern_loop pre ks (c, n) =
     (filter (\<lambda>kv. \<not> (fst kv \<in> set ks \<and> HasPrefix (fst kv) pre)) c,
      n + of_nat (length (filter (\<lambda>k. HasPrefix k pre) ks)))"
proof (induction ks arbitrary: c n)
  case Nil
  then show ?case by simp
next
  case (Cons k ks)
  show ?case
  proof (cases "HasPrefix k pre")
    case True
    have "filter (\<lambda>kv. \<not> (fst kv \<in> set ks \<and> HasPrefix (fst kv) pre))
            (filter (\<lambda>kv. fst kv \<noteq> k) c)
        = filter (\<lambda>kv. \<not> (fst kv \<in> set (k # ks) \<and> HasPrefix (fst kv) pre)) c"
      using True by (auto intro: filter_cong)
    then show ?thesis
      using True by (simp add: Cons.IH delete_as_filter)
  next
    case False
    have "filter (\<lambda>kv. \<not> (fst kv \<in> set ks \<and> HasPrefix (fst kv) pre)) c
        = filter (\<lambda>kv. \<not> (fst kv \<in> set (k # ks) \<and> HasPrefix (fst kv) pre)) c"
      using False by (auto intro: filter_cong)
    then show ?thesis
      using False by (simp add: Cons.IH)
  qed
qed

lemma DeletePattern_loop_all:
  "DeletePattern_loop pre (map fst c) (c, 0) =
     (AList.restrict {k. \<not> HasPrefix k pre} c,
      of_nat (length (filter (\<lambda>k. HasPrefix k pre) (map fst c))))"
proof -
  have "filter (\<lambda>kv. \<not> (fst kv \<in> set (map fst c) \<and> HasPrefix (fst kv) pre)) c
      = filter (\<lambda>(k, v). k \<in> {k. \<not> HasPrefix k pre}) c"
    by (auto intro!: filter_cong)
  then show ?thesis
    by (simp add: DeletePattern_loop_eq AList.restrict_eq)
qed

lemma count_matching:
  assumes "distinct (map fst c)"
  shows "length (filter P (map fst c)) = card {k \<in> dom (map_of c). P k}"
proof -
  have "distinct (filter P (map fst c))"
    using assms by (rule distinct_filter)
  then have "card (set (filter P (map fst c))) = length (filter P (map fst c))"
    by (rule distinct_card)
  moreover have "set (filter P (map fst c)) = {k \<in> dom (map_of c). P k}"
    by (auto simp: dom_map_of_conv_image_fst)
  ultimately show ?thesis
    by simp
qed

lemma sint_of_nat_small:
  assumes "n < 2 ^ 63"
  shows "sint (of_nat n :: int64) = int n"
  using assms by (simp add: signed_of_nat signed_take_bit_int_eq_self)

lemma TrimSuffix_star:
  "TrimSuffix pattern ''*'' =
     (if pattern \<noteq> [] \<and> last pattern = CHR ''*'' then butlast pattern else pattern)"
proof (cases pattern rule: rev_cases)
  case Nil
  then show ?thesis
    by (simp add: TrimSuffix_def HasSuffix_def)
next
  case (snoc ys y)
  then show ?thesis
    by (simp add: TrimSuffix_def HasSuffix_def)
qed

lemma mem_DeletePattern_result:
  assumes "wf_cache m" and "pattern \<noteq> []"
  shows "mem_DeletePattern m pattern =
      ((of_nat (card {k \<in> dom (map_of (cache m)). HasPrefix k (TrimSuffix pattern ''*'')}), None),
       m\<lparr>cache := AList.restrict {k. \<not> HasPrefix k (TrimSuffix pattern ''*'')} (cache m)\<rparr>)"
  using assms
  by (simp add: mem_DeletePattern_def Let_def DeletePattern_loop_all wf_cache_def
      count_matching [symmetric])

text \<open>
  Claim C6, as the code has it. For every pattern that is not empty, on an adapter
  whose map holds each key once, \<^verbatim>\<open>DeletePattern\<close> returns no error; the prefix is the
  pattern without one trailing \<^verbatim>\<open>*\<close>; afterwards a key that starts with the prefix has
  no entry and every other key has the entry it had; the count returned is the number of
  stored keys that start with the prefix (read as a signed number, as long as the map
  has fewer than \<open>2 ^ 63\<close> entries). For the empty pattern \<^verbatim>\<open>DeletePattern\<close> returns 0
  and leaves the adapter as it is. \<^verbatim>\<open>InvalidateCacheOnUpdate\<close> on a manager over the
  in-memory adapter is \<^verbatim>\<open>DeletePattern\<close> with the pattern \<^verbatim>\<open>resource + ":"\<close>, whose
  prefix is the pattern itself.
\<close>

theorem DeletePattern_deletes_prefix:
  assumes "wf_cache m" and "pattern \<noteq> []"
  shows "snd (fst (mem_DeletePattern m pattern)) = None
    \<and> (\<forall>k. map_of (cache (snd (mem_DeletePattern m pattern))) k =
          (if HasPrefix k (TrimSuffix pattern ''*'') then None else map_of (cache m) k))
    \<and> fst (fst (mem_DeletePattern m pattern)) =
        of_nat (card {k \<in> dom (map_of (cache m)). HasPrefix k (TrimSuffix pattern ''*'')})
    \<and> (length (cache m) < 2 ^ 63 \<longrightarrow>
        sint (fst (fst (mem_DeletePattern m pattern))) =
          int (card {k \<in> dom (map_of (cache m)). HasPrefix k (TrimSuffix pattern ''*'')}))
    \<and> wf_cache (snd (mem_DeletePattern m pattern))
    \<and> defaultTTL (snd (mem_DeletePattern m pattern)) = defaultTTL m
    \<and> TrimSuffix pattern ''*'' =
        (if last pattern = CHR ''*'' then butlast pattern else pattern)
    \<and> mem_DeletePattern m [] = ((0, None), m)
    \<and> (adapter mgr = Some (MemoryAdapter marshal) \<longrightarrow>
        InvalidateCacheOnUpdate (Some mgr) m resource = mem_DeletePattern m (resource @ '':'')
        \<and> TrimSuffix (resource @ '':'') ''*'' = resource @ '':'')"
proof -
  let ?pre = "TrimSuffix pattern ''*''"
  let ?n = "card {k \<in> dom (map_of (cache m)). HasPrefix k ?pre}"
  note r = mem_DeletePattern_result [OF assms]
  have le: "?n \<le> length (cache m)"
    using count_matching [of "cache m" "\<lambda>k. HasPrefix k ?pre"] assms(1)
      length_filter_le [of "\<lambda>k. HasPrefix k ?pre" "map fst (cache m)"]
    by (simp add: wf_cache_def)
  have s: "sint (of_nat ?n :: int64) = int ?n" if "length (cache m) < 2 ^ 63"
    using that le by (intro sint_of_nat_small) simp
  have t: "?pre = (if last pattern = CHR ''*'' then butlast pattern else pattern)"
    using assms(2) by (simp add: TrimSuffix_star)
  have e: "mem_DeletePattern m [] = ((0, None), m)"
    by (simp add: mem_DeletePattern_def)
  have i: "InvalidateCacheOnUpdate (Some mgr) m resource = mem_DeletePattern m (resource @ '':'')
        \<and> TrimSuffix (resource @ '':'') ''*'' = resource @ '':''"
    if "adapter mgr = Some (MemoryAdapter marshal)"
    using that
    by (simp add: InvalidateCacheOnUpdate_def Manager_DeletePattern_def MemoryAdapter_def
        TrimSuffix_star)
  have main: "snd (fst (mem_DeletePattern m pattern)) = None
    \<and> (\<forall>k. map_of (cache (snd (mem_DeletePattern m pattern))) k =
          (if HasPrefix k ?pre then None else map_of (cache m) k))
    \<and> fst (fst (mem_DeletePattern m pattern)) = of_nat ?n
    \<and> wf_cache (snd (mem_DeletePattern m pattern))
    \<and> defaultTTL (snd (mem_DeletePattern m pattern)) = defaultTTL m"
    using assms(1) by (simp add: r restr_conv' restrict_map_def wf_cache_def distinct_restr)
  have s': "length (cache m) < 2 ^ 63 \<longrightarrow>
        sint (fst (fst (mem_DeletePattern m pattern))) = int ?n"
    using s main by simp
  show ?thesis
    using main s' t e i by blast
qed

text \<open>
  Three entries, two of them under \<^verbatim>\<open>user:\<close>: the pattern \<^verbatim>\<open>user:*\<close> removes those two,
  returns 2 and keeps \<^verbatim>\<open>item:7\<close>.
\<close>

theorem DeletePattern_deletes_prefix_witness:
  "wf_cache \<lparr>cache = [(''user:1'', \<lparr>data = ''1'', expireAt = 0\<rparr>),
                      (''item:7'', \<lparr>data = ''2'', expireAt = 0\<rparr>),
                      (''user:2'', \<lparr>data = ''3'', expireAt = 0\<rparr>)], defaultTTL = 0\<rparr>
   \<and> ''user:*'' \<noteq> []
   \<and> fst (mem_DeletePattern \<lparr>cache = [(''user:1'', \<lparr>data = ''1'', expireAt = 0\<rparr>),
                      (''item:7'', \<lparr>data = ''2'', expireAt = 0\<rparr>),
                      (''user:2'', \<lparr>data = ''3'', expireAt = 0\<rparr>)], defaultTTL = 0\<rparr> ''user:*'')
        = (2, None)
   \<and> map_of (cache (snd (mem_DeletePattern
          \<lparr>cache = [(''user:1'', \<lparr>data = ''1'', expireAt = 0\<rparr>),
                      (''item:7'', \<lparr>data = ''2'', expireAt = 0\<rparr>),
                      (''user:2'', \<lparr>data = ''3'', expireAt = 0\<rparr>)], defaultTTL = 0\<rparr> ''user:*'')))
        ''user:2'' = None
   \<and> map_of (cache (snd (mem_DeletePattern
          \<lparr>cache = [(''user:1'', \<lparr>data = ''1'', expireAt = 0\<rparr>),
                      (''item:7'', \<lparr>data = ''2'', expireAt = 0\<rparr>),
                      (''user:2'', \<lparr>data = ''3'', expireAt = 0\<rparr>)], defaultTTL = 0\<rparr> ''user:*'')))
        ''item:7'' = Some \<lparr>data = ''2'', expireAt = 0\<rparr>"
proof -
  let ?m = "\<lparr>cache = [(''user:1'', \<lparr>data = ''1'', expireAt = 0\<rparr>),
                      (''item:7'', \<lparr>data = ''2'', expireAt = 0\<rparr>),
                      (''user:2'', \<lparr>data = ''3'', expireAt = 0\<rparr>)], defaultTTL = 0\<rparr>"
  have h1: "wf_cache ?m"
    by (simp add: wf_cache_def)
  have h2: "''user:*'' \<noteq> []"
    by simp
  have pre: "TrimSuffix ''user:*'' ''*'' = ''user:''"
    by (simp add: TrimSuffix_def HasSuffix_def)
  have cnt: "fst (mem_DeletePattern ?m ''user:*'') = (2, None)"
    by (simp add: mem_DeletePattern_def pre HasPrefix_def)
  from DeletePattern_deletes_prefix [OF h1 h2]
  have "\<forall>k. map_of (cache (snd (mem_DeletePattern ?m ''user:*''))) k =
          (if HasPrefix k ''user:'' then None else map_of (cache ?m) k)"
    unfolding pre by blast
  then have "map_of (cache (snd (mem_DeletePattern ?m ''user:*''))) ''user:2'' = None"
    and "map_of (cache (snd (mem_DeletePattern ?m ''user:*''))) ''item:7''
          = Some \<lparr>data = ''2'', expireAt = 0\<rparr>"
    by (simp_all add: HasPrefix_def)
  then show ?thesis
    using h1 cnt by simp
qed

text \<open>
  Claim C6 as it is written fails for the empty pattern. Its prefix is the empty string,
  which the stored key \<^verbatim>\<open>user:1\<close> starts with, and yet \<^verbatim>\<open>DeletePattern\<close> returns 0 and
  the key keeps its entry: the function returns before the loop when the pattern is
  empty.
\<close>

theorem DeletePattern_empty_pattern_counterexample:
  "HasPrefix ''user:1'' (TrimSuffix [] ''*'')
   \<and> map_of (cache \<lparr>cache = [(''user:1'', \<lparr>data = ''1'', expireAt = 0\<rparr>)], defaultTTL = 0\<rparr>)
        ''user:1'' = Some \<lparr>data = ''1'', expireAt = 0\<rparr>
   \<and> mem_DeletePattern \<lparr>cache = [(''user:1'', \<lparr>data = ''1'', expireAt = 0\<rparr>)], defaultTTL = 0\<rparr> []
      = ((0, None), \<lparr>cache = [(''user:1'', \<lparr>data = ''1'', expireAt = 0\<rparr>)], defaultTTL = 0\<rparr>)"
  by (simp add: mem_DeletePattern_def TrimSuffix_def HasSuffix_def HasPrefix_def)

subsection \<open>The two critical sections of \<^verbatim>\<open>Get\<close>\<close>

text \<open>
  Claim C5, on the code. \<^verbatim>\<open>Get\<close> decides that the entry has expired from what it read
  under the read lock, and under the write lock it deletes the key without looking at
  the map again. The schedule: the key holds an entry that expired at 5; at time 10 a
  first caller's \<^verbatim>\<open>Get\<close> reads it and releases the read lock; a second caller's \<^verbatim>\<open>Set\<close>
  stores a fresh entry that lives until 110; the first caller takes the write lock. The
  fresh entry is deleted.
\<close>

theorem Get_deletes_refreshed_entry:
  "(let m0 = \<lparr>cache = [(''k'', \<lparr>data = ''1'', expireAt = 5\<rparr>)], defaultTTL = 0\<rparr>;
        found = mem_Get_read m0 ''k'';
        m1 = snd (mem_Set Marshal_int64 m0 10 ''k'' 7 100);
        r = mem_Get_finish found m1 10 ''k''
    in map_of (cache m1) ''k'' = Some \<lparr>data = ''7'', expireAt = 110\<rparr>
       \<and> fst r = (None, None)
       \<and> map_of (cache (snd r)) ''k'' = None)"
  by (simp add: mem_Get_read_def mem_Set_def Marshal_int64_7 mem_Get_finish_def IsZero_def
      zeroTime_def After_def Add_def)

section \<open>Properties of \<^verbatim>\<open>Query\<close>\<close>

lemma RecordHit_counts:
  "HitCount (metrics (RecordHit mo du t)) = HitCount (metrics mo) + 1
   \<and> MissCount (metrics (RecordHit mo du t)) = MissCount (metrics mo)"
  by (simp add: RecordHit_def track_def Let_def)

lemma RecordMiss_counts:
  "MissCount (metrics (RecordMiss mo du t)) = MissCount (metrics mo) + 1
   \<and> HitCount (metrics (RecordMiss mo du t)) = HitCount (metrics mo)"
  by (simp add: RecordMiss_def track_def Let_def)

lemma Query_reaches_lookup:
  assumes "adapter mgr = Some ad"
    and "Query_validate (Query_options mgr opts) clk = None"
  shows "Query unmarshal zero clk (Some mgr) s w key queryFunc opts =
    (case Query_lookup unmarshal zero clk ad (monitor mgr) s key (Query_options mgr opts) of
       (Some cached, s1, mon1) \<Rightarrow>
         \<lparr>q_value = cached, q_err = None, q_backend = s1, q_monitor = mon1, q_world = w\<rparr>
     | (None, s1, mon1) \<Rightarrow>
         Query_produce zero clk ad mgr (Query_options mgr opts) s1 mon1 w key queryFunc)"
  using assms by (simp add: Query_def Let_def)

lemma Query_produce_world:
  "q_world (Query_produce zero clk ad mgr options s1 mon1 w key queryFunc) = snd (queryFunc w)
   \<and> q_monitor (Query_produce zero clk ad mgr options s1 mon1 w key queryFunc) = mon1"
  by (simp add: Query_produce_def Let_def split: prod.splits option.splits)

lemma mem_Get_backend:
  "snd (mem_Get m t key) = m
   \<or> (\<exists>e. map_of (cache m) key = Some e \<and> \<not> IsZero (expireAt e) \<and> After t (expireAt e)
        \<and> snd (mem_Get m t key) = m\<lparr>cache := AList.delete key (cache m)\<rparr>)"
  by (auto simp: mem_Get_def mem_Get_read_def mem_Get_finish_def split: option.splits)

lemma Query_options_Nil:
  "Query_options mgr [] =
     \<lparr>opt_TTL = mgr_defaultTTL mgr, opt_UseCache = True, opt_Ticket = None\<rparr>"
  by (simp add: Query_options_def)

text \<open>
  Claim C2, as the code has it. Take a call of \<^verbatim>\<open>Query\<close> with caching enabled, on a
  manager with an adapter and a monitor, that passes the ticket check, and let the
  adapter's \<^verbatim>\<open>Get\<close> return the payload \<open>dat\<close> and the error \<open>gerr\<close>.
  \<^item> A payload without error that deserializes: the monitor records one hit, the producer
    is not invoked (the producer's state is the one before the call), and the call
    returns the deserialized value.
  \<^item> A payload without error that fails to deserialize: the monitor records one hit, not a
    miss, and the producer is invoked.
  \<^item> No payload, or an error: the monitor records one miss and the producer is invoked.

  One hit adds 1 to \<^verbatim>\<open>HitCount\<close> and leaves \<^verbatim>\<open>MissCount\<close>; one miss does the opposite.
\<close>

theorem Query_lookup_observations:
  assumes "adapter mgr = Some ad" and "monitor mgr = Some mo"
    and "Query_validate (Query_options mgr opts) clk = None"
    and "opt_UseCache (Query_options mgr opts)"
    and "adapter_Get ad s (t_get clk) key = ((dat, gerr), s1)"
  shows
   "(\<forall>d. dat = Some d \<and> gerr = None \<and> snd (unmarshal d zero) = None \<longrightarrow>
        q_monitor (Query unmarshal zero clk (Some mgr) s w key queryFunc opts) =
          Some (RecordHit mo (elapsed clk) (t_track clk))
        \<and> q_world (Query unmarshal zero clk (Some mgr) s w key queryFunc opts) = w
        \<and> q_value (Query unmarshal zero clk (Some mgr) s w key queryFunc opts) =
            fst (unmarshal d zero)
        \<and> q_err (Query unmarshal zero clk (Some mgr) s w key queryFunc opts) = None)
    \<and> (\<forall>d. dat = Some d \<and> gerr = None \<and> snd (unmarshal d zero) \<noteq> None \<longrightarrow>
        q_monitor (Query unmarshal zero clk (Some mgr) s w key queryFunc opts) =
          Some (RecordHit mo (elapsed clk) (t_track clk))
        \<and> q_world (Query unmarshal zero clk (Some mgr) s w key queryFunc opts) =
            snd (queryFunc w))
    \<and> (dat = None \<or> gerr \<noteq> None \<longrightarrow>
        q_monitor (Query unmarshal zero clk (Some mgr) s w key queryFunc opts) =
          Some (RecordMiss mo (elapsed clk) (t_track clk))
        \<and> q_world (Query unmarshal zero clk (Some mgr) s w key queryFunc opts) =
            snd (queryFunc w))
    \<and> HitCount (metrics (RecordHit mo (elapsed clk) (t_track clk))) = HitCount (metrics mo) + 1
    \<and> MissCount (metrics (RecordHit mo (elapsed clk) (t_track clk))) = MissCount (metrics mo)
    \<and> MissCount (metrics (RecordMiss mo (elapsed clk) (t_track clk))) =
        MissCount (metrics mo) + 1
    \<and> HitCount (metrics (RecordMiss mo (elapsed clk) (t_track clk))) = HitCount (metrics mo)"
proof -
  note Q = Query_reaches_lookup [OF assms(1) assms(3)]
  have hit: "Query_lookup unmarshal zero clk ad (monitor mgr) s key (Query_options mgr opts) =
      (Some (fst (unmarshal d zero)), s1, Some (RecordHit mo (elapsed clk) (t_track clk)))"
    if "dat = Some d" "gerr = None" "snd (unmarshal d zero) = None" for d
    using that assms(2,4,5)
    by (cases "unmarshal d zero") (simp add: Query_lookup_def Let_def)
  have corrupt:
    "Query_lookup unmarshal zero clk ad (monitor mgr) s key (Query_options mgr opts) =
      (None, s1, Some (RecordHit mo (elapsed clk) (t_track clk)))"
    if "dat = Some d" "gerr = None" "snd (unmarshal d zero) \<noteq> None" for d
    using that assms(2,4,5)
    by (cases "unmarshal d zero") (auto simp: Query_lookup_def Let_def)
  have miss: "Query_lookup unmarshal zero clk ad (monitor mgr) s key (Query_options mgr opts) =
      (None, s1, Some (RecordMiss mo (elapsed clk) (t_track clk)))"
    if "dat = None \<or> gerr \<noteq> None"
    using that assms(2,4,5) by (auto simp: Query_lookup_def Let_def split: option.splits)
  show ?thesis
    using hit corrupt miss
    by (simp add: Q Query_produce_world RecordHit_counts RecordMiss_counts)
qed

text \<open>
  On the in-memory adapter with a fresh monitor: the key \<^verbatim>\<open>user:2\<close> holds the payload
  \<^verbatim>\<open>42\<close>, so the call returns 42, the producer's state is untouched and one hit is
  counted; on an empty adapter the producer runs once and one miss is recorded.
\<close>

theorem Query_lookup_observations_witness:
  "q_value (Query Unmarshal_int64 0 exampleClock
       (Some (NewManagerWithAdapter (Some (MemoryAdapter Marshal_int64)) 60 0))
       \<lparr>cache = [(''user:2'', \<lparr>data = ''42'', expireAt = 0\<rparr>)], defaultTTL = 60\<rparr>
       (0 :: nat) ''user:2'' (\<lambda>w. ((7, None), Suc w)) []) = 42
   \<and> q_world (Query Unmarshal_int64 0 exampleClock
       (Some (NewManagerWithAdapter (Some (MemoryAdapter Marshal_int64)) 60 0))
       \<lparr>cache = [(''user:2'', \<lparr>data = ''42'', expireAt = 0\<rparr>)], defaultTTL = 60\<rparr>
       (0 :: nat) ''user:2'' (\<lambda>w. ((7, None), Suc w)) []) = 0
   \<and> q_monitor (Query Unmarshal_int64 0 exampleClock
       (Some (NewManagerWithAdapter (Some (MemoryAdapter Marshal_int64)) 60 0))
       \<lparr>cache = [(''user:2'', \<lparr>data = ''42'', expireAt = 0\<rparr>)], defaultTTL = 60\<rparr>
       (0 :: nat) ''user:2'' (\<lambda>w. ((7, None), Suc w)) []) =
       Some (RecordHit (NewMonitor 0) 3 10)
   \<and> HitCount (metrics (RecordHit (NewMonitor 0) 3 10)) = 1
   \<and> MissCount (metrics (RecordHit (NewMonitor 0) 3 10)) = 0
   \<and> q_world (Query Unmarshal_int64 0 exampleClock
       (Some (NewManagerWithAdapter (Some (MemoryAdapter Marshal_int64)) 60 0))
       \<lparr>cache = [], defaultTTL = 60\<rparr>
       (0 :: nat) ''user:2'' (\<lambda>w. ((7, None), Suc w)) []) = Suc 0
   \<and> q_monitor (Query Unmarshal_int64 0 exampleClock
       (Some (NewManagerWithAdapter (Some (MemoryAdapter Marshal_int64)) 60 0))
       \<lparr>cache = [], defaultTTL = 60\<rparr>
       (0 :: nat) ''user:2'' (\<lambda>w. ((7, None), Suc w)) []) =
       Some (RecordMiss (NewMonitor 0) 3 10)"
proof -
  let ?mgr = "NewManagerWithAdapter (Some (MemoryAdapter Marshal_int64)) 60 0"
  let ?s = "\<lparr>cache = [(''user:2'', \<lparr>data = ''42'', expireAt = 0\<rparr>)], defaultTTL = 60\<rparr>"
  let ?e = "\<lparr>cache = [], defaultTTL = 60 :: Duration\<rparr>"
  have h1: "adapter ?mgr = Some (MemoryAdapter Marshal_int64)"
    and h2: "monitor ?mgr = Some (NewMonitor 0)"
    by (simp_all add: NewManagerWithAdapter_def)
  have h3: "Query_validate (Query_options ?mgr []) exampleClock = None"
    by (simp add: Query_validate_def Query_options_Nil)
  have h4: "opt_UseCache (Query_options ?mgr [])"
    by (simp add: Query_options_Nil)
  have h5: "adapter_Get (MemoryAdapter Marshal_int64) ?s (t_get exampleClock) ''user:2'' =
      ((Some ''42'', None), ?s)"
    by (simp add: MemoryAdapter_def mem_Get_def mem_Get_read_def mem_Get_finish_def IsZero_def
        zeroTime_def)
  have h6: "adapter_Get (MemoryAdapter Marshal_int64) ?e (t_get exampleClock) ''user:2'' =
      ((None, None), ?e)"
    by (simp add: MemoryAdapter_def mem_Get_def mem_Get_read_def mem_Get_finish_def)
  have u: "Unmarshal_int64 ''42'' 0 = (42, None)"
    by code_simp
  have c: "elapsed exampleClock = 3" "t_track exampleClock = 10"
    by (simp_all add: exampleClock_def)
  have n: "HitCount (metrics (NewMonitor 0)) = 0" "MissCount (metrics (NewMonitor 0)) = 0"
    by (simp_all add: NewMonitor_def)
  show ?thesis
    using
      Query_lookup_observations [OF h1 h2 h3 h4 h5, of Unmarshal_int64 0 0
        "\<lambda>w. ((7, None), Suc w)"]
      Query_lookup_observations [OF h1 h2 h3 h4 h6, of Unmarshal_int64 0 0
        "\<lambda>w. ((7, None), Suc w)"]
    by (simp add: u c n)
qed

text \<open>
  Claim C2 as it is written fails when the stored payload does not deserialize. The key
  \<^verbatim>\<open>user:2\<close> holds the payload \<^verbatim>\<open>true\<close> and the call asks for an \<^verbatim>\<open>int64\<close>: decoding
  fails, the producer is invoked, and the monitor has counted one hit and no miss.
\<close>

theorem Query_corrupt_payload_counterexample:
  "snd (Unmarshal_int64 ''true'' 0) \<noteq> None
   \<and> map_option (\<lambda>mo. (HitCount (metrics mo), MissCount (metrics mo)))
       (q_monitor (Query Unmarshal_int64 0 exampleClock
         (Some (NewManagerWithAdapter (Some (MemoryAdapter Marshal_int64)) 60 0))
         \<lparr>cache = [(''user:2'', \<lparr>data = ''true'', expireAt = 0\<rparr>)], defaultTTL = 60\<rparr>
         (0 :: nat) ''user:2'' (\<lambda>w. ((42, None), Suc w)) [])) = Some (1, 0)
   \<and> q_world (Query Unmarshal_int64 0 exampleClock
         (Some (NewManagerWithAdapter (Some (MemoryAdapter Marshal_int64)) 60 0))
         \<lparr>cache = [(''user:2'', \<lparr>data = ''true'', expireAt = 0\<rparr>)], defaultTTL = 60\<rparr>
         (0 :: nat) ''user:2'' (\<lambda>w. ((42, None), Suc w)) []) = Suc 0"
proof -
  have utrue: "Unmarshal_int64 ''true'' 0 =
      (0, Some (JSONError ''cannot unmarshal into Go value of type int64''))"
    by code_simp
  show ?thesis
    by (simp add: Query_def NewManagerWithAdapter_def MemoryAdapter_def Query_options_Nil
        Query_validate_def Query_lookup_def exampleClock_def mem_Get_def mem_Get_read_def
        mem_Get_finish_def IsZero_def zeroTime_def After_def Query_produce_def utrue
        RecordHit_counts NewMonitor_def Let_def)
qed

text \<open>
  Claim C1, as the code has it. Take a call of \<^verbatim>\<open>Query\<close> that reaches the producer: the
  manager has an adapter, the ticket check passes and the lookup returns no cached
  value, leaving the backend in the state \<open>s1\<close>. That state is the one the adapter's
  \<^verbatim>\<open>Get\<close> left, or the backend as it was when caching is disabled.
  \<^item> If the producer fails, \<^verbatim>\<open>Query\<close> returns the zero value with the producer's error
    and calls no \<^verbatim>\<open>Set\<close>: the backend stays \<open>s1\<close>.
  \<^item> If the producer succeeds, \<^verbatim>\<open>Query\<close> returns the producer's result and no error,
    whatever the adapter's \<^verbatim>\<open>Set\<close> returns; the backend is what that \<^verbatim>\<open>Set\<close> left, or
    \<open>s1\<close> when caching is disabled.

  The producer runs once. The \<^verbatim>\<open>Get\<close> of the in-memory adapter leaves the adapter as it
  was, or without the key's entry when that entry had expired.
\<close>

theorem Query_producer_decides:
  assumes "adapter mgr = Some ad"
    and "Query_validate (Query_options mgr opts) clk = None"
    and "Query_lookup unmarshal zero clk ad (monitor mgr) s key (Query_options mgr opts) =
           (None, s1, mon1)"
    and "queryFunc w = ((result, perr), w1)"
  shows
   "(\<forall>e. perr = Some e \<longrightarrow>
        q_err (Query unmarshal zero clk (Some mgr) s w key queryFunc opts) = Some e
        \<and> q_value (Query unmarshal zero clk (Some mgr) s w key queryFunc opts) = zero
        \<and> q_backend (Query unmarshal zero clk (Some mgr) s w key queryFunc opts) = s1)
    \<and> (perr = None \<longrightarrow>
        q_err (Query unmarshal zero clk (Some mgr) s w key queryFunc opts) = None
        \<and> q_value (Query unmarshal zero clk (Some mgr) s w key queryFunc opts) = result
        \<and> q_backend (Query unmarshal zero clk (Some mgr) s w key queryFunc opts) =
            (if opt_UseCache (Query_options mgr opts)
             then snd (adapter_Set ad s1 (t_set clk) key result
                        (if opt_TTL (Query_options mgr opts) = 0 then mgr_defaultTTL mgr
                         else opt_TTL (Query_options mgr opts)))
             else s1))
    \<and> s1 = (if opt_UseCache (Query_options mgr opts)
            then snd (adapter_Get ad s (t_get clk) key) else s)
    \<and> q_world (Query unmarshal zero clk (Some mgr) s w key queryFunc opts) = w1
    \<and> (snd (mem_Get m t key) = m
        \<or> (\<exists>e. map_of (cache m) key = Some e \<and> \<not> IsZero (expireAt e) \<and> After t (expireAt e)
              \<and> snd (mem_Get m t key) = m\<lparr>cache := AList.delete key (cache m)\<rparr>))"
proof -
  let ?P = "Query_produce zero clk ad mgr (Query_options mgr opts) s1 mon1 w key queryFunc"
  note Q = Query_reaches_lookup [OF assms(1) assms(2)]
  have s1: "s1 = (if opt_UseCache (Query_options mgr opts)
            then snd (adapter_Get ad s (t_get clk) key) else s)"
    using assms(3)
    by (auto simp: Query_lookup_def Let_def split: if_splits prod.splits option.splits)
  have R: "Query unmarshal zero clk (Some mgr) s w key queryFunc opts = ?P"
    by (simp add: Q assms(3))
  have fails: "q_err ?P = Some e \<and> q_value ?P = zero \<and> q_backend ?P = s1"
    if "perr = Some e" for e
    using that by (simp add: Query_produce_def assms(4))
  have succeeds: "q_err ?P = None \<and> q_value ?P = result
      \<and> q_backend ?P =
            (if opt_UseCache (Query_options mgr opts)
             then snd (adapter_Set ad s1 (t_set clk) key result
                        (if opt_TTL (Query_options mgr opts) = 0 then mgr_defaultTTL mgr
                         else opt_TTL (Query_options mgr opts)))
             else s1)"
    if "perr = None"
    using that by (simp add: Query_produce_def assms(4) Let_def)
  have world: "q_world ?P = w1"
    by (simp add: Query_produce_world assms(4))
  show ?thesis
    unfolding R using fails succeeds world s1 mem_Get_backend [of m t key] by blast
qed

text \<open>
  On the unreachable adapter \<^verbatim>\<open>Set\<close> fails and the call still returns the producer's 42
  without error. On an empty in-memory adapter a producer that fails for the key
  \<^verbatim>\<open>profile:999\<close> has its error returned and the adapter stays empty.
\<close>

theorem Query_producer_decides_witness:
  "fst (adapter_Set unreachableAdapter () 10 ''user:2'' 42 60) =
     Some (ErrorsNew ''connection refused'')
   \<and> q_value (Query Unmarshal_int64 0 exampleClock
        (Some (NewManagerWithAdapter (Some unreachableAdapter) 60 0))
        () (0 :: nat) ''user:2'' (\<lambda>w. ((42, None), Suc w)) []) = 42
   \<and> q_err (Query Unmarshal_int64 0 exampleClock
        (Some (NewManagerWithAdapter (Some unreachableAdapter) 60 0))
        () (0 :: nat) ''user:2'' (\<lambda>w. ((42, None), Suc w)) []) = None
   \<and> q_err (Query Unmarshal_int64 0 exampleClock
        (Some (NewManagerWithAdapter (Some (MemoryAdapter Marshal_int64)) 60 0))
        \<lparr>cache = [], defaultTTL = 60\<rparr> (0 :: nat) ''profile:999''
        (\<lambda>w. ((0, Some (ErrorsNew ''no rows'')), Suc w)) []) = Some (ErrorsNew ''no rows'')
   \<and> q_backend (Query Unmarshal_int64 0 exampleClock
        (Some (NewManagerWithAdapter (Some (MemoryAdapter Marshal_int64)) 60 0))
        \<lparr>cache = [], defaultTTL = 60\<rparr> (0 :: nat) ''profile:999''
        (\<lambda>w. ((0, Some (ErrorsNew ''no rows'')), Suc w)) []) = \<lparr>cache = [], defaultTTL = 60\<rparr>"
proof -
  let ?down = "NewManagerWithAdapter (Some unreachableAdapter) 60 0"
  let ?mgr = "NewManagerWithAdapter (Some (MemoryAdapter Marshal_int64)) 60 0"
  let ?e = "\<lparr>cache = [], defaultTTL = 60 :: Duration\<rparr>"
  have a1: "adapter ?down = Some unreachableAdapter"
    and a2: "adapter ?mgr = Some (MemoryAdapter Marshal_int64)"
    by (simp_all add: NewManagerWithAdapter_def)
  have v1: "Query_validate (Query_options ?down []) exampleClock = None"
    and v2: "Query_validate (Query_options ?mgr []) exampleClock = None"
    by (simp_all add: Query_validate_def Query_options_Nil)
  have l1: "Query_lookup Unmarshal_int64 0 exampleClock unreachableAdapter (monitor ?down) ()
      ''user:2'' (Query_options ?down []) =
      (None, (),
       map_option (\<lambda>mo. RecordMiss mo (elapsed exampleClock) (t_track exampleClock))
         (monitor ?down))"
    by (simp add: Query_lookup_def Query_options_Nil unreachableAdapter_def)
  have l2: "Query_lookup Unmarshal_int64 0 exampleClock (MemoryAdapter Marshal_int64)
      (monitor ?mgr) ?e ''profile:999'' (Query_options ?mgr []) =
      (None, ?e,
       map_option (\<lambda>mo. RecordMiss mo (elapsed exampleClock) (t_track exampleClock))
         (monitor ?mgr))"
    by (simp add: Query_lookup_def Query_options_Nil MemoryAdapter_def mem_Get_def
        mem_Get_read_def mem_Get_finish_def)
  have d: "fst (adapter_Set unreachableAdapter () 10 ''user:2'' 42 60) =
      Some (ErrorsNew ''connection refused'')"
    by (simp add: unreachableAdapter_def)
  show ?thesis
    using d
      Query_producer_decides [where queryFunc = "\<lambda>w. ((42, None), Suc w)" and w = "0 :: nat",
        OF a1 v1 l1 refl]
      Query_producer_decides [where
        queryFunc = "\<lambda>w. ((0, Some (ErrorsNew ''no rows'')), Suc w)" and w = "0 :: nat",
        OF a2 v2 l2 refl]
    by simp
qed

text \<open>
  Claim C1 as it is written fails on the in-memory adapter when the key holds an expired
  entry: the lookup is a miss, the producer fails and its error is returned, yet the
  backend is not what it was before the call, for the lookup's \<^verbatim>\<open>Get\<close> has deleted the
  expired entry.
\<close>

theorem Query_producer_failure_counterexample:
  "q_err (Query Unmarshal_int64 0 exampleClock
       (Some (NewManagerWithAdapter (Some (MemoryAdapter Marshal_int64)) 60 0))
       \<lparr>cache = [(''profile:999'', \<lparr>data = ''1'', expireAt = 5\<rparr>)], defaultTTL = 60\<rparr>
       (0 :: nat) ''profile:999'' (\<lambda>w. ((0, Some (ErrorsNew ''no rows'')), Suc w)) [])
     = Some (ErrorsNew ''no rows'')
   \<and> q_backend (Query Unmarshal_int64 0 exampleClock
       (Some (NewManagerWithAdapter (Some (MemoryAdapter Marshal_int64)) 60 0))
       \<lparr>cache = [(''profile:999'', \<lparr>data = ''1'', expireAt = 5\<rparr>)], defaultTTL = 60\<rparr>
       (0 :: nat) ''profile:999'' (\<lambda>w. ((0, Some (ErrorsNew ''no rows'')), Suc w)) [])
     = \<lparr>cache = [], defaultTTL = 60\<rparr>
   \<and> q_backend (Query Unmarshal_int64 0 exampleClock
       (Some (NewManagerWithAdapter (Some (MemoryAdapter Marshal_int64)) 60 0))
       \<lparr>cache = [(''profile:999'', \<lparr>data = ''1'', expireAt = 5\<rparr>)], defaultTTL = 60\<rparr>
       (0 :: nat) ''profile:999'' (\<lambda>w. ((0, Some (ErrorsNew ''no rows'')), Suc w)) [])
     \<noteq> \<lparr>cache = [(''profile:999'', \<lparr>data = ''1'', expireAt = 5\<rparr>)], defaultTTL = 60\<rparr>"
  by (simp add: Query_def NewManagerWithAdapter_def MemoryAdapter_def Query_options_Nil
      Query_validate_def Query_lookup_def exampleClock_def mem_Get_def mem_Get_read_def
      mem_Get_finish_def IsZero_def zeroTime_def After_def Query_produce_def)

section \<open>Properties of pagination\<close>

text \<open>
  Claim C8. Normalizing twice gives what normalizing once gives. The result has a page
  of at least 1 and a page size between 1 and \<^verbatim>\<open>MaxPageSize\<close>. A \<^verbatim>\<open>nil\<close> argument gives
  the defaults; a page that is not positive becomes \<^verbatim>\<open>DefaultPage\<close>, a page size that is
  not positive becomes \<^verbatim>\<open>DefaultPageSize\<close>, a larger page size is capped at
  \<^verbatim>\<open>MaxPageSize\<close>, and everything else is kept.
\<close>

theorem Normalize_idempotent:
  "NormalizePaginationParams (Some (NormalizePaginationParams p)) = NormalizePaginationParams p
   \<and> 1 \<le> Page (NormalizePaginationParams p)
   \<and> 1 \<le> PageSize (NormalizePaginationParams p)
   \<and> PageSize (NormalizePaginationParams p) \<le> MaxPageSize
   \<and> (p = None \<longrightarrow> NormalizePaginationParams p =
         \<lparr>Page = DefaultPage, PageSize = DefaultPageSize, UseCache = True\<rparr>)
   \<and> (\<forall>q. p = Some q \<longrightarrow>
         Page (NormalizePaginationParams p) = (if Page q \<le> 0 then DefaultPage else Page q)
         \<and> PageSize (NormalizePaginationParams p) =
             (if PageSize q \<le> 0 then DefaultPageSize else min (PageSize q) MaxPageSize)
         \<and> UseCache (NormalizePaginationParams p) = UseCache q)"
  by (cases p)
    (auto simp: NormalizePaginationParams_def Let_def DefaultPage_def DefaultPageSize_def
      MaxPageSize_def)

theorem Normalize_idempotent_witness:
  "NormalizePaginationParams (Some \<lparr>Page = - 3, PageSize = 500, UseCache = False\<rparr>) =
     \<lparr>Page = 1, PageSize = 200, UseCache = False\<rparr>
   \<and> NormalizePaginationParams (Some \<lparr>Page = 4, PageSize = 0, UseCache = True\<rparr>) =
     \<lparr>Page = 4, PageSize = 20, UseCache = True\<rparr>
   \<and> NormalizePaginationParams None = \<lparr>Page = 1, PageSize = 20, UseCache = True\<rparr>
   \<and> NormalizePaginationParams (Some (NormalizePaginationParams
         (Some \<lparr>Page = - 3, PageSize = 500, UseCache = False\<rparr>))) =
       \<lparr>Page = 1, PageSize = 200, UseCache = False\<rparr>"
proof -
  have eq: "r = \<lparr>Page = a, PageSize = b, UseCache = c\<rparr>"
    if "Page r = a" "PageSize r = b" "UseCache r = c" for r :: PaginationParams and a b c
    using that by (cases r) simp
  have a: "NormalizePaginationParams (Some \<lparr>Page = - 3, PageSize = 500, UseCache = False\<rparr>) =
     \<lparr>Page = 1, PageSize = 200, UseCache = False\<rparr>"
    using Normalize_idempotent [of "Some \<lparr>Page = - 3, PageSize = 500, UseCache = False\<rparr>"]
    by (intro eq) (simp_all add: DefaultPage_def MaxPageSize_def)
  have b: "NormalizePaginationParams (Some \<lparr>Page = 4, PageSize = 0, UseCache = True\<rparr>) =
     \<lparr>Page = 4, PageSize = 20, UseCache = True\<rparr>"
    using Normalize_idempotent [of "Some \<lparr>Page = 4, PageSize = 0, UseCache = True\<rparr>"]
    by (intro eq) (simp_all add: DefaultPageSize_def)
  have c: "NormalizePaginationParams None = \<lparr>Page = 1, PageSize = 20, UseCache = True\<rparr>"
    using Normalize_idempotent [of None]
    by (simp add: DefaultPage_def DefaultPageSize_def)
  have d: "NormalizePaginationParams (Some (NormalizePaginationParams
         (Some \<lparr>Page = - 3, PageSize = 500, UseCache = False\<rparr>))) =
       \<lparr>Page = 1, PageSize = 200, UseCache = False\<rparr>"
    using Normalize_idempotent [of "Some \<lparr>Page = - 3, PageSize = 500, UseCache = False\<rparr>"] a
    by simp
  show ?thesis
    using a b c d by simp
qed

text \<open>
  Claim C9. The \<^verbatim>\<open>DataHash\<close> of a response built by \<^verbatim>\<open>BuildPaginationResponse\<close> is
  \<^verbatim>\<open>GenerateDataHash\<close> of the data: two responses built from the same data have the same
  hash, whatever their totals, pagination parameters, cache keys and cache flags.
\<close>

theorem DataHash_of_data_alone:
  "resp_DataHash (BuildPaginationResponse marshal sha256 dat tot1 params1 key1 fromCache1) =
     resp_DataHash (BuildPaginationResponse marshal sha256 dat tot2 params2 key2 fromCache2)
   \<and> resp_DataHash (BuildPaginationResponse marshal sha256 dat tot1 params1 key1 fromCache1) =
     GenerateDataHash marshal sha256 dat"
  by (simp add: BuildPaginationResponse_def Let_def)

lemma sort_keys_eq:
  assumes "distinct (map fst f1)" and "distinct (map fst f2)" and "set f1 = set f2"
  shows "sort (map fst f1) = sort (map fst f2)"
proof (rule sorted_distinct_set_unique)
  show "set (sort (map fst f1)) = set (sort (map fst f2))"
    using assms(3) by simp
qed (use assms in simp_all)

text \<open>
  Claim C4. Two filter maps that hold the same key-value pairs, visited in any two
  orders, give the same cache key for the same resource whenever the normalized page and
  page size agree. The key is the resource, then each filter name with its marshalled
  value, the names in sorted order, then the page and the page size, joined by \<^verbatim>\<open>:\<close>.
\<close>

theorem GenerateCacheKey_order_independent:
  assumes "distinct (map fst f1)" and "distinct (map fst f2)" and "set f1 = set f2"
    and "Page (NormalizePaginationParams p1) = Page (NormalizePaginationParams p2)"
    and "PageSize (NormalizePaginationParams p1) = PageSize (NormalizePaginationParams p2)"
  shows "GenerateCacheKey marshal resource f1 p1 = GenerateCacheKey marshal resource f2 p2
    \<and> GenerateCacheKey marshal resource f1 p1 =
        Join ([resource]
              @ concat (map (\<lambda>k. [k, marshal_string marshal (map_of f1 k)])
                         (sort (map fst f1)))
              @ [''page'', int_dec (Page (NormalizePaginationParams p1)),
                 ''size'', int_dec (PageSize (NormalizePaginationParams p1))]) '':''
    \<and> sorted (sort (map fst f1)) \<and> distinct (sort (map fst f1))
    \<and> set (sort (map fst f1)) = fst ` set f1"
proof -
  have m: "map_of f1 = map_of f2"
    using assms(1-3) by (simp add: map_of_inject_set)
  have e: "f1 = [] \<longleftrightarrow> f2 = []"
    using assms(3) by (metis set_empty)
  have k: "sort (map fst f1) = sort (map fst f2)"
    using assms(1-3) by (rule sort_keys_eq)
  have "GenerateCacheKey marshal resource f1 p1 = GenerateCacheKey marshal resource f2 p2"
    using assms(4,5) e by (simp add: GenerateCacheKey_def Let_def m k)
  moreover have "GenerateCacheKey marshal resource f1 p1 =
        Join ([resource]
              @ concat (map (\<lambda>k. [k, marshal_string marshal (map_of f1 k)])
                         (sort (map fst f1)))
              @ [''page'', int_dec (Page (NormalizePaginationParams p1)),
                 ''size'', int_dec (PageSize (NormalizePaginationParams p1))]) '':''"
    by (cases f1) (simp_all add: GenerateCacheKey_def Let_def)
  ultimately show ?thesis
    using assms(1) by simp
qed

text \<open>
  The filters \<^verbatim>\<open>{b: 2, a: 1}\<close> visited in both orders, page 0 and page size 500: both
  give the key \<^verbatim>\<open>users:a:1:b:2:page:1:size:200\<close>.
\<close>

theorem GenerateCacheKey_order_independent_witness:
  "GenerateCacheKey Marshal_int64 ''users'' [(''b'', 2), (''a'', 1)]
      (Some \<lparr>Page = 0, PageSize = 500, UseCache = False\<rparr>) =
   GenerateCacheKey Marshal_int64 ''users'' [(''a'', 1), (''b'', 2)]
      (Some \<lparr>Page = 0, PageSize = 500, UseCache = False\<rparr>)
   \<and> GenerateCacheKey Marshal_int64 ''users'' [(''b'', 2), (''a'', 1)]
      (Some \<lparr>Page = 0, PageSize = 500, UseCache = False\<rparr>) = ''users:a:1:b:2:page:1:size:200''"
proof -
  have h1: "distinct (map fst [(''b'', 2 :: int64), (''a'', 1)])"
    and h2: "distinct (map fst [(''a'', 1 :: int64), (''b'', 2)])"
    by simp_all
  have h3: "set [(''b'', 2 :: int64), (''a'', 1)] = set [(''a'', 1), (''b'', 2)]"
    by auto
  have v: "GenerateCacheKey Marshal_int64 ''users'' [(''b'', 2), (''a'', 1)]
      (Some \<lparr>Page = 0, PageSize = 500, UseCache = False\<rparr>) = ''users:a:1:b:2:page:1:size:200''"
    by code_simp
  show ?thesis
    using v GenerateCacheKey_order_independent [OF h1 h2 h3 refl refl, of Marshal_int64
        "''users''" "Some \<lparr>Page = 0, PageSize = 500, UseCache = False\<rparr>"]
    by simp
qed

end
